theory Spec2Isabelle
  imports Complex_Main
begin

section \<open>Numbers\<close>

text \<open>
  The C type \<open>float\<close> is modelled by \<open>real\<close>: every arithmetic operation of the source
  is taken exactly, there is no rounding, no infinity and no NaN. The constants of
  \<open>float.h\<close> and \<open>limits.h\<close> which the source uses as sentinels are the reals they denote
  after conversion to \<open>float\<close>. A division by zero gives an infinity or a NaN in C and 0
  in HOL; a statement that depends on a quotient is meant for a divisor other than 0, and
  says so among its assumptions.
\<close>

definition FLT_MAX :: real where
  "FLT_MAX = 340282346638528859811704183484516925440"

text \<open>\<open>float (INT_MAX)\<close> and \<open>float (INT_MIN)\<close>: the nearest floats are $2^{31}$ and $-2^{31}$.\<close>

definition float_INT_MAX :: real where
  "float_INT_MAX = 2147483648"

definition float_INT_MIN :: real where
  "float_INT_MIN = - 2147483648"

text \<open>
  The source writes \<open>NAN\<close> into slots of a scratch array which it never reads back
  (the slots of absent spline neighbours). The model has no NaN; the slot holds 0.
\<close>

definition NAN :: real where
  "NAN = 0"

text \<open>
  Modelled from the spec: \<open>square\<close> is declared in \<open>lensfunprv.h\<close>, which is not among
  the sources. The spec gives the distance between two vignetting samples as the root of
  the sum of the squared differences on the three axes, so \<open>square x\<close> is \<open>x * x\<close>.
\<close>

definition square :: "real \<Rightarrow> real" where
  "square x = x * x"

section \<open>Data model (lensfun.h)\<close>

datatype lfDistortionModel =
    LF_DIST_MODEL_NONE
  | LF_DIST_MODEL_POLY3
  | LF_DIST_MODEL_POLY5
  | LF_DIST_MODEL_PTLENS
  | LF_DIST_MODEL_ACM

datatype lfTCAModel =
    LF_TCA_MODEL_NONE
  | LF_TCA_MODEL_LINEAR
  | LF_TCA_MODEL_POLY3
  | LF_TCA_MODEL_ACM

datatype lfVignettingModel =
    LF_VIGNETTING_MODEL_NONE
  | LF_VIGNETTING_MODEL_PA
  | LF_VIGNETTING_MODEL_ACM

datatype lfCropMode =
    LF_NO_CROP
  | LF_CROP_RECTANGLE
  | LF_CROP_CIRCLE

datatype lfLensType =
    LF_UNKNOWN
  | LF_RECTILINEAR
  | LF_FISHEYE
  | LF_PANORAMIC
  | LF_EQUIRECTANGULAR
  | LF_FISHEYE_ORTHOGRAPHIC
  | LF_FISHEYE_STEREOGRAPHIC
  | LF_FISHEYE_EQUISOLID
  | LF_FISHEYE_THOBY

text \<open>
  The five calibration structs. Field names carry a suffix for the struct
  (\<open>_d\<close>, \<open>_t\<close>, \<open>_v\<close>, \<open>_c\<close>, \<open>_f\<close>) since the structs share them.
  An array \<open>float Terms [n]\<close> is a list of \<open>n\<close> reals.
\<close>

record lfLensCalibDistortion =
  Model_d :: lfDistortionModel
  Focal_d :: real
  RealFocal :: real
  RealFocalMeasured :: bool
  Terms_d :: "real list"

record lfLensCalibTCA =
  Model_t :: lfTCAModel
  Focal_t :: real
  Terms_t :: "real list"

record lfLensCalibVignetting =
  Model_v :: lfVignettingModel
  Focal_v :: real
  Aperture :: real
  Distance :: real
  Terms_v :: "real list"

record lfLensCalibCrop =
  Focal_c :: real
  CropMode :: lfCropMode
  Crop :: "real list"

record lfLensCalibFov =
  Focal_f :: real
  FieldOfView :: real

text \<open>
  A calibration list is a NULL-terminated heap array of pointers, or the NULL pointer
  itself when nothing was ever added: \<open>None\<close> is NULL, \<open>Some xs\<close> an allocated array
  with the entries \<open>xs\<close> (possibly none, after the last entry was removed).
  \<open>Maker\<close> and \<open>Model\<close> are multi-language strings; the source reads them with the C
  string functions, which see the default translation only, so the model keeps that.
\<close>

record lfLens =
  Maker :: "string option"
  Model :: "string option"
  MinFocal :: real
  MaxFocal :: real
  MinAperture :: real
  MaxAperture :: real
  Mounts :: "string list option"
  CenterX :: real
  CenterY :: real
  CropFactor :: real
  AspectRatio :: real
  Type :: lfLensType
  CalibDistortion :: "lfLensCalibDistortion list option"
  CalibTCA :: "lfLensCalibTCA list option"
  CalibVignetting :: "lfLensCalibVignetting list option"
  CalibCrop :: "lfLensCalibCrop list option"
  CalibFov :: "lfLensCalibFov list option"
  Score :: int

text \<open>The entries a loop \<open>if (list) for (i = 0; list [i]; i++)\<close> visits.\<close>

fun entries :: "'a list option \<Rightarrow> 'a list" where
  "entries None = []"
| "entries (Some xs) = xs"

section \<open>Generic list helpers (auxfun.cpp)\<close>

text \<open>
  The scanning loop of \<open>_lf_addobj\<close>: the index of the first entry which \<open>cmpf\<close>
  accepts, counting from \<open>n\<close>; \<open>None\<close> when the loop runs to the terminator.
  A NULL \<open>cmpf\<close> accepts nothing.
\<close>

fun addobj_scan :: "('a \<Rightarrow> 'a \<Rightarrow> bool) option \<Rightarrow> 'a \<Rightarrow> 'a list \<Rightarrow> nat \<Rightarrow> nat option" where
  "addobj_scan cmpf val [] n = None"
| "addobj_scan cmpf val (x # xs) n =
     (if (case cmpf of None \<Rightarrow> False | Some f \<Rightarrow> f val x) then Some n
      else addobj_scan cmpf val xs (Suc n))"

text \<open>
  \<open>_lf_addobj\<close>: on a hit the entry at that index is freed and a copy of \<open>val\<close> stored
  in its place; otherwise the array grows by one and the copy goes before the terminator.
\<close>

definition lf_addobj :: "'a list option \<Rightarrow> 'a \<Rightarrow> ('a \<Rightarrow> 'a \<Rightarrow> bool) option \<Rightarrow> 'a list option" where
  "lf_addobj var val cmpf =
     (case var of
        None \<Rightarrow> Some [val]
      | Some xs \<Rightarrow>
          (case addobj_scan cmpf val xs 0 of
             Some n \<Rightarrow> Some (xs[n := val])
           | None \<Rightarrow> Some (xs @ [val])))"

text \<open>
  \<open>_lf_delobj\<close>: fails on a NULL array and on an index outside \<open>0 .. len - 1\<close>;
  otherwise the tail (with the terminator) is moved down by one place.
\<close>

definition lf_delobj :: "'a list option \<Rightarrow> int \<Rightarrow> bool \<times> 'a list option" where
  "lf_delobj var idx =
     (case var of
        None \<Rightarrow> (False, None)
      | Some xs \<Rightarrow>
          (let len = int (length xs) in
           if idx < 0 \<or> idx \<ge> len then (False, Some xs)
           else (True, Some (take (nat idx) xs @ drop (nat idx + 1) xs))))"

text \<open>
  \<open>_lf_interpolate\<close>: the Hermite cubic through \<open>y2\<close> (at t = 0) and \<open>y3\<close> (at t = 1);
  an outer neighbour equal to \<open>FLT_MAX\<close> is absent and the tangent is one-sided.
\<close>

definition lf_interpolate :: "real \<Rightarrow> real \<Rightarrow> real \<Rightarrow> real \<Rightarrow> real \<Rightarrow> real" where
  "lf_interpolate y1 y2 y3 y4 t =
     (let t2 = t * t;
          t3 = t2 * t;
          tg2 = (if y1 = FLT_MAX then y3 - y2 else (y3 - y1) * 0.5);
          tg3 = (if y4 = FLT_MAX then y3 - y2 else (y4 - y2) * 0.5)
      in (2 * t3 - 3 * t2 + 1) * y2 +
         (t3 - 2 * t2 + t) * tg2 +
         (- 2 * t3 + 3 * t2) * y3 +
         (t3 - t2) * tg3)"

section \<open>Calibration lists of a lens (lens.cpp)\<close>

definition cmp_distortion :: "lfLensCalibDistortion \<Rightarrow> lfLensCalibDistortion \<Rightarrow> bool" where
  "cmp_distortion d1 d2 = (Focal_d d1 = Focal_d d2)"

definition AddCalibDistortion :: "lfLens \<Rightarrow> lfLensCalibDistortion \<Rightarrow> lfLens" where
  "AddCalibDistortion l dc =
     l\<lparr>CalibDistortion := lf_addobj (CalibDistortion l) dc (Some cmp_distortion)\<rparr>"

definition RemoveCalibDistortion :: "lfLens \<Rightarrow> int \<Rightarrow> bool \<times> lfLens" where
  "RemoveCalibDistortion l idx =
     (let (r, var) = lf_delobj (CalibDistortion l) idx in (r, l\<lparr>CalibDistortion := var\<rparr>))"

definition cmp_tca :: "lfLensCalibTCA \<Rightarrow> lfLensCalibTCA \<Rightarrow> bool" where
  "cmp_tca t1 t2 = (Focal_t t1 = Focal_t t2)"

definition AddCalibTCA :: "lfLens \<Rightarrow> lfLensCalibTCA \<Rightarrow> lfLens" where
  "AddCalibTCA l tcac =
     l\<lparr>CalibTCA := lf_addobj (CalibTCA l) tcac (Some cmp_tca)\<rparr>"

definition RemoveCalibTCA :: "lfLens \<Rightarrow> int \<Rightarrow> bool \<times> lfLens" where
  "RemoveCalibTCA l idx =
     (let (r, var) = lf_delobj (CalibTCA l) idx in (r, l\<lparr>CalibTCA := var\<rparr>))"

definition cmp_vignetting :: "lfLensCalibVignetting \<Rightarrow> lfLensCalibVignetting \<Rightarrow> bool" where
  "cmp_vignetting v1 v2 =
     (Focal_v v1 = Focal_v v2 \<and> Distance v1 = Distance v2 \<and> Aperture v1 = Aperture v2)"

definition AddCalibVignetting :: "lfLens \<Rightarrow> lfLensCalibVignetting \<Rightarrow> lfLens" where
  "AddCalibVignetting l vc =
     l\<lparr>CalibVignetting := lf_addobj (CalibVignetting l) vc (Some cmp_vignetting)\<rparr>"

definition RemoveCalibVignetting :: "lfLens \<Rightarrow> int \<Rightarrow> bool \<times> lfLens" where
  "RemoveCalibVignetting l idx =
     (let (r, var) = lf_delobj (CalibVignetting l) idx in (r, l\<lparr>CalibVignetting := var\<rparr>))"

definition cmp_lenscrop :: "lfLensCalibCrop \<Rightarrow> lfLensCalibCrop \<Rightarrow> bool" where
  "cmp_lenscrop d1 d2 = (Focal_c d1 = Focal_c d2)"

definition AddCalibCrop :: "lfLens \<Rightarrow> lfLensCalibCrop \<Rightarrow> lfLens" where
  "AddCalibCrop l lcc =
     l\<lparr>CalibCrop := lf_addobj (CalibCrop l) lcc (Some cmp_lenscrop)\<rparr>"

definition RemoveCalibCrop :: "lfLens \<Rightarrow> int \<Rightarrow> bool \<times> lfLens" where
  "RemoveCalibCrop l idx =
     (let (r, var) = lf_delobj (CalibCrop l) idx in (r, l\<lparr>CalibCrop := var\<rparr>))"

definition cmp_lensfov :: "lfLensCalibFov \<Rightarrow> lfLensCalibFov \<Rightarrow> bool" where
  "cmp_lensfov d1 d2 = (Focal_f d1 = Focal_f d2)"

definition AddCalibFov :: "lfLens \<Rightarrow> lfLensCalibFov \<Rightarrow> lfLens" where
  "AddCalibFov l lcf =
     l\<lparr>CalibFov := lf_addobj (CalibFov l) lcf (Some cmp_lensfov)\<rparr>"

definition RemoveCalibFov :: "lfLens \<Rightarrow> int \<Rightarrow> bool \<times> lfLens" where
  "RemoveCalibFov l idx =
     (let (r, var) = lf_delobj (CalibFov l) idx in (r, l\<lparr>CalibFov := var\<rparr>))"

text \<open>
  The key tuple which \<open>cmp_vignetting\<close> compares; the other four comparison functions
  compare the focal length.
\<close>

definition key_vignetting :: "lfLensCalibVignetting \<Rightarrow> real \<times> real \<times> real" where
  "key_vignetting v = (Focal_v v, Aperture v, Distance v)"

text \<open>The list without its entry at position \<open>i\<close>, the others in their order.\<close>

definition removed_at :: "'a list \<Rightarrow> nat \<Rightarrow> 'a list" where
  "removed_at xs i = take i xs @ drop (Suc i) xs"

text \<open>
  What a call of \<open>_lf_addobj\<close> with a comparison on the key \<open>key\<close> makes of the entries
  \<open>xs\<close>: either the first entry with the key of \<open>v\<close> is overwritten in place, or no
  entry has that key and \<open>v\<close> is appended.
\<close>

definition add_outcome :: "('a \<Rightarrow> 'k) \<Rightarrow> 'a list \<Rightarrow> 'a \<Rightarrow> 'a list \<Rightarrow> bool" where
  "add_outcome key xs v ys =
     ((\<exists>i\<in>{..<length xs}.
          key (xs ! i) = key v \<and> (\<forall>j\<in>{..<i}. key (xs ! j) \<noteq> key v) \<and> ys = xs[i := v])
      \<or> (key v \<notin> key ` set xs \<and> ys = xs @ [v]))"

text \<open>No two entries of a calibration list of the lens share their key tuple.\<close>

definition calib_keys_distinct :: "lfLens \<Rightarrow> bool" where
  "calib_keys_distinct l =
     (distinct (map Focal_d (entries (CalibDistortion l))) \<and>
      distinct (map Focal_t (entries (CalibTCA l))) \<and>
      distinct (map key_vignetting (entries (CalibVignetting l))) \<and>
      distinct (map Focal_c (entries (CalibCrop l))) \<and>
      distinct (map Focal_f (entries (CalibFov l))))"

text \<open>
  The constructor \<open>lfLens::lfLens ()\<close>: every field zero, every pointer NULL, the type
  unknown.
\<close>

definition new_lfLens :: lfLens where
  "new_lfLens =
     \<lparr>Maker = None, Model = None, MinFocal = 0, MaxFocal = 0, MinAperture = 0,
      MaxAperture = 0, Mounts = None, CenterX = 0, CenterY = 0, CropFactor = 0,
      AspectRatio = 0, Type = LF_UNKNOWN, CalibDistortion = None, CalibTCA = None,
      CalibVignetting = None, CalibCrop = None, CalibFov = None, Score = 0\<rparr>"

section \<open>Parameter-axis scaling and spline neighbours (lens.cpp)\<close>

text \<open>The correction kinds passed as \<open>type\<close>, and the integer values of the model enums.\<close>

definition LF_MODIFY_TCA :: int where
  "LF_MODIFY_TCA = 1"

definition LF_MODIFY_VIGNETTING :: int where
  "LF_MODIFY_VIGNETTING = 2"

definition LF_MODIFY_DISTORTION :: int where
  "LF_MODIFY_DISTORTION = 8"

fun int_of_lfDistortionModel :: "lfDistortionModel \<Rightarrow> int" where
  "int_of_lfDistortionModel LF_DIST_MODEL_NONE = 0"
| "int_of_lfDistortionModel LF_DIST_MODEL_POLY3 = 1"
| "int_of_lfDistortionModel LF_DIST_MODEL_POLY5 = 2"
| "int_of_lfDistortionModel LF_DIST_MODEL_PTLENS = 3"
| "int_of_lfDistortionModel LF_DIST_MODEL_ACM = 4"

fun int_of_lfTCAModel :: "lfTCAModel \<Rightarrow> int" where
  "int_of_lfTCAModel LF_TCA_MODEL_NONE = 0"
| "int_of_lfTCAModel LF_TCA_MODEL_LINEAR = 1"
| "int_of_lfTCAModel LF_TCA_MODEL_POLY3 = 2"
| "int_of_lfTCAModel LF_TCA_MODEL_ACM = 3"

fun int_of_lfVignettingModel :: "lfVignettingModel \<Rightarrow> int" where
  "int_of_lfVignettingModel LF_VIGNETTING_MODEL_NONE = 0"
| "int_of_lfVignettingModel LF_VIGNETTING_MODEL_PA = 1"
| "int_of_lfVignettingModel LF_VIGNETTING_MODEL_ACM = 2"

text \<open>
  \<open>__parameter_scales\<close> overwrites the focal lengths in \<open>values\<close> by their scale factors;
  the model returns the new array. The exponents are small natural numbers converted to
  \<open>float\<close>, so \<open>pow (v, exponent)\<close> is the power \<open>v ^ exponent\<close>. The callers pass a loop
  counter as \<open>index\<close>, never a negative number, so \<open>index\<close> is a \<open>nat\<close>. A \<open>type\<close> or a
  \<open>model\<close> without a \<open>case\<close> leaves the array as it is.
\<close>

definition parameter_scales :: "real list \<Rightarrow> int \<Rightarrow> int \<Rightarrow> nat \<Rightarrow> real list" where
  "parameter_scales values type model index =
     (if type = LF_MODIFY_DISTORTION then
        (if model = int_of_lfDistortionModel LF_DIST_MODEL_POLY3
            \<or> model = int_of_lfDistortionModel LF_DIST_MODEL_POLY5
            \<or> model = int_of_lfDistortionModel LF_DIST_MODEL_PTLENS then values
         else if model = int_of_lfDistortionModel LF_DIST_MODEL_ACM then
           (let exponent = (if index < 3 then 2 * (index + 1) else 1)
            in map (\<lambda>v. v / v ^ exponent) values)
         else values)
      else if type = LF_MODIFY_TCA then
        (if model = int_of_lfTCAModel LF_TCA_MODEL_LINEAR
            \<or> model = int_of_lfTCAModel LF_TCA_MODEL_POLY3 then
           (if index < 2 then map (\<lambda>v. 1) values else values)
         else if model = int_of_lfTCAModel LF_TCA_MODEL_ACM then
           (let exponent = (if index > 1 \<and> index < 8 then index div 2 * 2 else 1)
            in map (\<lambda>v. v / v ^ exponent) values)
         else values)
      else if type = LF_MODIFY_VIGNETTING then
        (if model = int_of_lfVignettingModel LF_VIGNETTING_MODEL_PA then
           map (\<lambda>v. 1) values
         else if model = int_of_lfVignettingModel LF_VIGNETTING_MODEL_ACM then
           (let exponent = 2 * (index + 1)
            in map (\<lambda>v. 1 / v ^ exponent) values)
         else values)
      else values)"

text \<open>
  The arrays \<open>spline [4]\<close> (pointers, NULL when unset) and \<open>spline_dist [4]\<close> are
  quadruples. \<open>__insert_spline\<close> returns them updated together with its result, the
  slot written or \<open>-1\<close>. Its parameter \<open>dist\<close> is \<open>dst\<close> here.
\<close>

type_synonym 'a spline = "'a option \<times> 'a option \<times> 'a option \<times> 'a option"

type_synonym spline_dist = "real \<times> real \<times> real \<times> real"

definition insert_spline ::
    "'a spline \<Rightarrow> spline_dist \<Rightarrow> real \<Rightarrow> 'a \<Rightarrow> 'a spline \<times> spline_dist \<times> int" where
  "insert_spline spline spline_dist dst val =
     (case spline of (s0, s1, s2, s3) \<Rightarrow>
      case spline_dist of (d0, d1, d2, d3) \<Rightarrow>
        if dst < 0 then
          (if dst > d1 then ((s1, Some val, s2, s3), (d1, dst, d2, d3), 1)
           else if dst > d0 then ((Some val, s1, s2, s3), (dst, d1, d2, d3), 0)
           else (spline, spline_dist, - 1))
        else
          (if dst < d2 then ((s0, s1, Some val, s2), (d0, d1, dst, d2), 2)
           else if dst < d3 then ((s0, s1, s2, Some val), (d0, d1, d2, dst), 3)
           else (spline, spline_dist, - 1)))"

definition spline_init :: "'a spline" where
  "spline_init = (None, None, None, None)"

definition spline_dist_init :: spline_dist where
  "spline_dist_init = (- FLT_MAX, - FLT_MAX, FLT_MAX, FLT_MAX)"

text \<open>
  The scanning loop which \<open>InterpolateDistortion\<close>, \<open>InterpolateTCA\<close> and
  \<open>InterpolateCrop\<close> share word for word, up to the record type: \<open>model\<close> and \<open>foc\<close> read
  the model and the focal length of a record, \<open>none\<close> is the model NONE. The loop skips a
  record of model NONE, latches the first other model in \<open>dm\<close>, skips a record of another
  model, leaves the function with the record on an exact match (\<open>Inl\<close>) and otherwise
  offers the record to the spline slots. \<open>Inr\<close> is the state after the last record.
\<close>

fun spline_scan ::
    "('a \<Rightarrow> 'm) \<Rightarrow> 'm \<Rightarrow> ('a \<Rightarrow> real) \<Rightarrow> real \<Rightarrow> 'a list \<Rightarrow> 'm \<Rightarrow> 'a spline \<Rightarrow> spline_dist
       \<Rightarrow> 'a + 'm \<times> 'a spline \<times> spline_dist" where
  "spline_scan model none foc focal [] dm spline spline_dist = Inr (dm, spline, spline_dist)"
| "spline_scan model none foc focal (c # cs) dm spline spline_dist =
     (if model c = none then spline_scan model none foc focal cs dm spline spline_dist
      else if dm \<noteq> none \<and> dm \<noteq> model c then
        spline_scan model none foc focal cs dm spline spline_dist
      else
        (let dm' = (if dm = none then model c else dm);
             df = focal - foc c
         in if df = 0 then Inl c
            else (case insert_spline spline spline_dist df c of
                    (spline', spline_dist', r) \<Rightarrow>
                      spline_scan model none foc focal cs dm' spline' spline_dist')))"

text \<open>The value a spline slot hands to \<open>_lf_interpolate\<close>: \<open>FLT_MAX\<close> for a NULL slot.\<close>

definition slot_or_FLT_MAX :: "'a option \<Rightarrow> ('a \<Rightarrow> real) \<Rightarrow> real" where
  "slot_or_FLT_MAX s g = (case s of Some c \<Rightarrow> g c | None \<Rightarrow> FLT_MAX)"

text \<open>The focal length a spline slot puts into \<open>values\<close>: \<open>NAN\<close> for a NULL slot.\<close>

definition slot_or_NAN :: "'a option \<Rightarrow> ('a \<Rightarrow> real) \<Rightarrow> real" where
  "slot_or_NAN s g = (case s of Some c \<Rightarrow> g c | None \<Rightarrow> NAN)"

section \<open>The interpolators (lens.cpp)\<close>

text \<open>
  Each interpolator takes the caller's record \<open>res\<close> and returns its result together
  with the record as the call leaves it.
\<close>

definition InterpolateDistortion ::
    "lfLens \<Rightarrow> real \<Rightarrow> lfLensCalibDistortion \<Rightarrow> bool \<times> lfLensCalibDistortion" where
  "InterpolateDistortion l focal res =
     (case CalibDistortion l of
        None \<Rightarrow> (False, res)
      | Some cs \<Rightarrow>
          (case spline_scan Model_d LF_DIST_MODEL_NONE Focal_d focal cs LF_DIST_MODEL_NONE
                  spline_init spline_dist_init of
             Inl c \<Rightarrow> (True, c)
           | Inr (dm, (s0, s1, s2, s3), sd) \<Rightarrow>
               (case (s1, s2) of
                  (None, None) \<Rightarrow> (False, res)
                | (Some c1, None) \<Rightarrow> (True, c1)
                | (None, Some c2) \<Rightarrow> (True, c2)
                | (Some c1, Some c2) \<Rightarrow>
                    (let t = (focal - Focal_d c1) / (Focal_d c2 - Focal_d c1);
                         rf = lf_interpolate (slot_or_FLT_MAX s0 RealFocal)
                                (RealFocal c1) (RealFocal c2)
                                (slot_or_FLT_MAX s3 RealFocal) t;
                         terms = map (\<lambda>i.
                           (let values = parameter_scales
                                  [slot_or_NAN s0 Focal_d, Focal_d c1, Focal_d c2,
                                   slot_or_NAN s3 Focal_d, focal]
                                  LF_MODIFY_DISTORTION (int_of_lfDistortionModel dm) i
                            in lf_interpolate
                                 (slot_or_FLT_MAX s0 (\<lambda>c. Terms_d c ! i * values ! 0))
                                 (Terms_d c1 ! i * values ! 1) (Terms_d c2 ! i * values ! 2)
                                 (slot_or_FLT_MAX s3 (\<lambda>c. Terms_d c ! i * values ! 3))
                                 t / values ! 4)) [0..<5]
                     in (True, res\<lparr>Model_d := dm, Focal_d := focal, RealFocal := rf,
                                    Terms_d := terms\<rparr>)))))"

definition InterpolateTCA :: "lfLens \<Rightarrow> real \<Rightarrow> lfLensCalibTCA \<Rightarrow> bool \<times> lfLensCalibTCA" where
  "InterpolateTCA l focal res =
     (case CalibTCA l of
        None \<Rightarrow> (False, res)
      | Some cs \<Rightarrow>
          (case spline_scan Model_t LF_TCA_MODEL_NONE Focal_t focal cs LF_TCA_MODEL_NONE
                  spline_init spline_dist_init of
             Inl c \<Rightarrow> (True, c)
           | Inr (tcam, (s0, s1, s2, s3), sd) \<Rightarrow>
               (case (s1, s2) of
                  (None, None) \<Rightarrow> (False, res)
                | (Some c1, None) \<Rightarrow> (True, c1)
                | (None, Some c2) \<Rightarrow> (True, c2)
                | (Some c1, Some c2) \<Rightarrow>
                    (let t = (focal - Focal_t c1) / (Focal_t c2 - Focal_t c1);
                         terms = map (\<lambda>i.
                           (let values = parameter_scales
                                  [slot_or_NAN s0 Focal_t, Focal_t c1, Focal_t c2,
                                   slot_or_NAN s3 Focal_t, focal]
                                  LF_MODIFY_TCA (int_of_lfTCAModel tcam) i
                            in lf_interpolate
                                 (slot_or_FLT_MAX s0 (\<lambda>c. Terms_t c ! i * values ! 0))
                                 (Terms_t c1 ! i * values ! 1) (Terms_t c2 ! i * values ! 2)
                                 (slot_or_FLT_MAX s3 (\<lambda>c. Terms_t c ! i * values ! 3))
                                 t / values ! 4)) [0..<12]
                     in (True, res\<lparr>Model_t := tcam, Focal_t := focal, Terms_t := terms\<rparr>)))))"

definition InterpolateCrop :: "lfLens \<Rightarrow> real \<Rightarrow> lfLensCalibCrop \<Rightarrow> bool \<times> lfLensCalibCrop" where
  "InterpolateCrop l focal res =
     (case CalibCrop l of
        None \<Rightarrow> (False, res)
      | Some cs \<Rightarrow>
          (case spline_scan CropMode LF_NO_CROP Focal_c focal cs LF_NO_CROP
                  spline_init spline_dist_init of
             Inl c \<Rightarrow> (True, c)
           | Inr (cm, (s0, s1, s2, s3), sd) \<Rightarrow>
               (case (s1, s2) of
                  (None, None) \<Rightarrow> (False, res)
                | (Some c1, None) \<Rightarrow> (True, c1)
                | (None, Some c2) \<Rightarrow> (True, c2)
                | (Some c1, Some c2) \<Rightarrow>
                    (let t = (focal - Focal_c c1) / (Focal_c c2 - Focal_c c1);
                         crop = map (\<lambda>i.
                           lf_interpolate (slot_or_FLT_MAX s0 (\<lambda>c. Crop c ! i))
                             (Crop c1 ! i) (Crop c2 ! i)
                             (slot_or_FLT_MAX s3 (\<lambda>c. Crop c ! i)) t) [0..<4]
                     in (True, res\<lparr>CropMode := cm, Focal_c := focal, Crop := crop\<rparr>)))))"

text \<open>
  The loop of \<open>InterpolateFov\<close>: a record with field of view 0 is skipped, every other
  one counted; there is no model to latch.
\<close>

fun fov_scan ::
    "real \<Rightarrow> lfLensCalibFov list \<Rightarrow> int \<Rightarrow> lfLensCalibFov spline \<Rightarrow> spline_dist
       \<Rightarrow> lfLensCalibFov + int \<times> lfLensCalibFov spline \<times> spline_dist" where
  "fov_scan focal [] counter spline spline_dist = Inr (counter, spline, spline_dist)"
| "fov_scan focal (c # cs) counter spline spline_dist =
     (if FieldOfView c = 0 then fov_scan focal cs counter spline spline_dist
      else
        (let counter' = counter + 1;
             df = focal - Focal_f c
         in if df = 0 then Inl c
            else (case insert_spline spline spline_dist df c of
                    (spline', spline_dist', r) \<Rightarrow>
                      fov_scan focal cs counter' spline' spline_dist')))"

definition InterpolateFov :: "lfLens \<Rightarrow> real \<Rightarrow> lfLensCalibFov \<Rightarrow> bool \<times> lfLensCalibFov" where
  "InterpolateFov l focal res =
     (case CalibFov l of
        None \<Rightarrow> (False, res)
      | Some cs \<Rightarrow>
          (case fov_scan focal cs 0 spline_init spline_dist_init of
             Inl c \<Rightarrow> (True, c)
           | Inr (counter, (s0, s1, s2, s3), sd) \<Rightarrow>
               if counter = 0 then (False, res)
               else
               (case (s1, s2) of
                  (None, None) \<Rightarrow> (False, res)
                | (Some c1, None) \<Rightarrow> (True, c1)
                | (None, Some c2) \<Rightarrow> (True, c2)
                | (Some c1, Some c2) \<Rightarrow>
                    (let t = (focal - Focal_f c1) / (Focal_f c2 - Focal_f c1);
                         fov = lf_interpolate (slot_or_FLT_MAX s0 FieldOfView)
                                 (FieldOfView c1) (FieldOfView c2)
                                 (slot_or_FLT_MAX s3 FieldOfView) t
                     in (True, res\<lparr>Focal_f := focal, FieldOfView := fov\<rparr>)))))"

section \<open>Vignetting: inverse distance weighting (lens.cpp)\<close>

definition vignetting_dist ::
    "lfLens \<Rightarrow> lfLensCalibVignetting \<Rightarrow> real \<Rightarrow> real \<Rightarrow> real \<Rightarrow> real" where
  "vignetting_dist l x focal aperture distance =
     (let f1 = focal - MinFocal l;
          f2 = Focal_v x - MinFocal l;
          df = MaxFocal l - MinFocal l;
          (f1, f2) = (if df \<noteq> 0 then (f1 / df, f2 / df) else (f1, f2));
          a1 = 4.0 / aperture;
          a2 = 4.0 / Aperture x;
          d1 = 0.1 / distance;
          d2 = 0.1 / Distance x
      in sqrt (square (f2 - f1) + square (a2 - a1) + square (d2 - d1)))"

text \<open>
  The state of the loop of \<open>InterpolateVignetting\<close>: the latched model \<open>vm\<close>, the
  caller's record \<open>res\<close> (the loop accumulates in its terms), \<open>total_weighting\<close> and
  \<open>smallest_interpolation_distance\<close>. \<open>Inl c\<close> is the return from inside the loop, with
  the record \<open>c\<close> copied to \<open>res\<close>. The weight is \<open>fabs (1.0 / pow (d, 3.5))\<close>; the base
  is at least \<open>0.0001\<close> there, so the power is \<open>powr\<close>.
\<close>

fun vignetting_scan ::
    "lfLens \<Rightarrow> real \<Rightarrow> real \<Rightarrow> real \<Rightarrow> lfLensCalibVignetting list
       \<Rightarrow> lfVignettingModel \<Rightarrow> lfLensCalibVignetting \<Rightarrow> real \<Rightarrow> real
       \<Rightarrow> lfLensCalibVignetting + lfVignettingModel \<times> lfLensCalibVignetting \<times> real \<times> real" where
  "vignetting_scan l focal aperture distance [] vm res total_weighting smallest =
     Inr (vm, res, total_weighting, smallest)"
| "vignetting_scan l focal aperture distance (c # cs) vm res total_weighting smallest =
     (if vm \<noteq> LF_VIGNETTING_MODEL_NONE \<and> vm \<noteq> Model_v c then
        vignetting_scan l focal aperture distance cs vm res total_weighting smallest
      else
        (let (vm', res') = (if vm = LF_VIGNETTING_MODEL_NONE
                            then (Model_v c, res\<lparr>Model_v := Model_v c\<rparr>) else (vm, res));
             interpolation_distance = vignetting_dist l c focal aperture distance
         in if interpolation_distance < 0.0001 then Inl c
            else
              (let smallest' = min smallest interpolation_distance;
                   weighting = \<bar>1.0 / (interpolation_distance powr 3.5)\<bar>;
                   terms = map (\<lambda>i.
                     (let values = parameter_scales [Focal_v c] LF_MODIFY_VIGNETTING
                                     (int_of_lfVignettingModel vm') i
                      in Terms_v res' ! i + weighting * Terms_v c ! i * values ! 0)) [0..<3]
               in vignetting_scan l focal aperture distance cs vm'
                    (res'\<lparr>Terms_v := terms\<rparr>) (total_weighting + weighting) smallest')))"

definition InterpolateVignetting ::
    "lfLens \<Rightarrow> real \<Rightarrow> real \<Rightarrow> real \<Rightarrow> lfLensCalibVignetting
       \<Rightarrow> bool \<times> lfLensCalibVignetting" where
  "InterpolateVignetting l focal aperture distance res =
     (case CalibVignetting l of
        None \<Rightarrow> (False, res)
      | Some cs \<Rightarrow>
          (let res0 = res\<lparr>Focal_v := focal, Aperture := aperture, Distance := distance,
                          Terms_v := [0, 0, 0]\<rparr>
           in case vignetting_scan l focal aperture distance cs LF_VIGNETTING_MODEL_NONE
                     res0 0 FLT_MAX of
                Inl c \<Rightarrow> (True, c)
              | Inr (vm, res1, total_weighting, smallest) \<Rightarrow>
                  if smallest > 1 then (False, res1)
                  else if total_weighting > 0 \<and> smallest < FLT_MAX then
                    (True, res1\<lparr>Terms_v := map (\<lambda>i.
                       (let values = parameter_scales [focal] LF_MODIFY_VIGNETTING
                                       (int_of_lfVignettingModel vm) i
                        in Terms_v res1 ! i / (total_weighting * values ! 0))) [0..<3]\<rparr>)
                  else (False, res1)))"

section \<open>Guessing lens parameters (lens.cpp)\<close>

text \<open>
  The POSIX regex matcher and \<open>atof\<close> come from the C library; they are parameters of
  the model. \<open>regexec rx s\<close> is \<open>None\<close> when the compiled expression \<open>rx\<close> does not match
  \<open>s\<close> (the C call returns non-zero) and otherwise the array of matches, each a pair
  \<open>(rm_so, rm_eo)\<close>, with \<open>rm_so = -1\<close> for a group that took no part. Compiling an
  expression once and keeping it in a static is left out.
\<close>

type_synonym regmatch = "int \<times> int"

type_synonym regexec = "string \<Rightarrow> string \<Rightarrow> regmatch list option"

text \<open>The table \<open>lens_name_regex\<close>: expression and \<open>matchidx\<close>.\<close>

definition lens_name_regex :: "(string \<times> nat \<times> nat \<times> nat) list" where
  "lens_name_regex =
     [(''([[:space:]]+|^)([0-9]+[0-9.]*)(-[0-9]+[0-9.]*)?(mm)?[[:space:]]+(f/|f|1/|1:)?([0-9.]+)(-[0-9.]+)?'',
       2, 3, 6),
      (''[[:space:]]+1:([0-9.]+)(-[0-9.]+)?[[:space:]]+([0-9.]+)(-[0-9.]+)?(mm)?'',
       3, 4, 1),
      (''([0-9.]+)(-[0-9.]+)?[[:space:]]*/[[:space:]]*([0-9.]+)(-[0-9.]+)?'',
       3, 4, 1)]"

text \<open>The expression of \<open>extender_magnification_regex\<close>; the character 0x5C is the backslash.\<close>

definition extender_magnification_regex :: string where
  "extender_magnification_regex = ''[0-9]('' @ [CHR 0x5C] @ ''.[0.9]+)?x''"

text \<open>\<open>strstr (s, sub) != NULL\<close>.\<close>

fun strstr :: "string \<Rightarrow> string \<Rightarrow> bool" where
  "strstr [] sub = (sub = [])"
| "strstr (c # cs) sub = (take (length sub) (c # cs) = sub \<or> strstr cs sub)"

definition lf_parse_float :: "(string \<Rightarrow> real) \<Rightarrow> string \<Rightarrow> regmatch \<Rightarrow> real" where
  "lf_parse_float atof model match =
     (let src = drop (nat (fst match)) model;
          len = snd match - fst match;
          (src, len) = (case src of
                          [] \<Rightarrow> (src, len)
                        | c # cs \<Rightarrow> if c = CHR ''-'' then (cs, len - 1) else (src, len));
          tmp = take (nat len) src
      in atof tmp)"

text \<open>
  The loop of \<open>_lf_parse_lens_name\<close> over the table, from the entry it has reached: the
  first expression that matches decides, and only the groups that took part overwrite
  \<open>minf\<close>, \<open>maxf\<close>, \<open>mina\<close>.
\<close>

fun parse_lens_name_loop ::
    "regexec \<Rightarrow> (string \<Rightarrow> real) \<Rightarrow> string \<Rightarrow> (string \<times> nat \<times> nat \<times> nat) list
       \<Rightarrow> real \<times> real \<times> real \<Rightarrow> bool \<times> real \<times> real \<times> real" where
  "parse_lens_name_loop regexec atof model [] (minf, maxf, mina) = (False, minf, maxf, mina)"
| "parse_lens_name_loop regexec atof model ((rx, i0, i1, i2) # rest) (minf, maxf, mina) =
     (case regexec rx model of
        None \<Rightarrow> parse_lens_name_loop regexec atof model rest (minf, maxf, mina)
      | Some matches \<Rightarrow>
          (let minf' = (if fst (matches ! i0) \<noteq> - 1
                        then lf_parse_float atof model (matches ! i0) else minf);
               maxf' = (if fst (matches ! i1) \<noteq> - 1
                        then lf_parse_float atof model (matches ! i1) else maxf);
               mina' = (if fst (matches ! i2) \<noteq> - 1
                        then lf_parse_float atof model (matches ! i2) else mina)
           in (True, minf', maxf', mina')))"

definition lf_parse_lens_name ::
    "regexec \<Rightarrow> (string \<Rightarrow> real) \<Rightarrow> string option \<Rightarrow> real \<times> real \<times> real
       \<Rightarrow> bool \<times> real \<times> real \<times> real" where
  "lf_parse_lens_name regexec atof model v =
     (case model of
        None \<Rightarrow> (False, v)
      | Some m \<Rightarrow> parse_lens_name_loop regexec atof m lens_name_regex v)"

text \<open>
  One of the loops of \<open>GuessParameters\<close> over a calibration list: the running minimum
  and maximum take in every value of the list.
\<close>

fun range_scan :: "real list \<Rightarrow> real \<times> real \<Rightarrow> real \<times> real" where
  "range_scan [] (lo, hi) = (lo, hi)"
| "range_scan (f # fs) (lo, hi) =
     range_scan fs (if f < lo then f else lo, if f > hi then f else hi)"

text \<open>
  \<open>GuessParameters\<close>. \<open>!MinAperture\<close> is \<open>MinAperture = 0\<close>. The loop over the vignetting
  list updates the focal and the aperture range side by side; the model runs the two
  scans one after the other, which gives the same four values.
\<close>

definition GuessParameters :: "regexec \<Rightarrow> (string \<Rightarrow> real) \<Rightarrow> lfLens \<Rightarrow> lfLens" where
  "GuessParameters regexec atof l =
     (let minf = float_INT_MAX; maxf = float_INT_MIN;
          mina = float_INT_MAX; maxa = float_INT_MIN;
          (minf, maxf, mina) =
            (case Model l of
               None \<Rightarrow> (minf, maxf, mina)
             | Some m \<Rightarrow>
                 if (MinAperture l = 0 \<or> MinFocal l = 0) \<and>
                    \<not> strstr m ''adapter'' \<and>
                    \<not> strstr m ''reducer'' \<and>
                    \<not> strstr m ''booster'' \<and>
                    \<not> strstr m ''extender'' \<and>
                    \<not> strstr m ''converter'' \<and>
                    regexec extender_magnification_regex m = None
                 then snd (lf_parse_lens_name regexec atof (Model l) (minf, maxf, mina))
                 else (minf, maxf, mina));
          (minf, maxf, mina, maxa) =
            (if MinAperture l = 0 \<or> MinFocal l = 0 then
               (let (minf, maxf) = range_scan (map Focal_d (entries (CalibDistortion l))) (minf, maxf);
                    (minf, maxf) = range_scan (map Focal_t (entries (CalibTCA l))) (minf, maxf);
                    (minf, maxf) = range_scan (map Focal_v (entries (CalibVignetting l))) (minf, maxf);
                    (mina, maxa) = range_scan (map Aperture (entries (CalibVignetting l))) (mina, maxa);
                    (minf, maxf) = range_scan (map Focal_c (entries (CalibCrop l))) (minf, maxf);
                    (minf, maxf) = range_scan (map Focal_f (entries (CalibFov l))) (minf, maxf)
                in (minf, maxf, mina, maxa))
             else (minf, maxf, mina, maxa));
          l = (if minf \<noteq> float_INT_MAX \<and> MinFocal l = 0 then l\<lparr>MinFocal := minf\<rparr> else l);
          l = (if maxf \<noteq> float_INT_MIN \<and> MaxFocal l = 0 then l\<lparr>MaxFocal := maxf\<rparr> else l);
          l = (if mina \<noteq> float_INT_MAX \<and> MinAperture l = 0 then l\<lparr>MinAperture := mina\<rparr> else l);
          l = (if maxa \<noteq> float_INT_MIN \<and> MaxAperture l = 0 then l\<lparr>MaxAperture := maxa\<rparr> else l);
          l = (if MaxFocal l = 0 then l\<lparr>MaxFocal := MinFocal l\<rparr> else l)
      in l)"

text \<open>\<open>Check\<close> guesses the parameters first; it returns its verdict and the lens as it leaves it.\<close>

definition Check :: "regexec \<Rightarrow> (string \<Rightarrow> real) \<Rightarrow> lfLens \<Rightarrow> bool \<times> lfLens" where
  "Check regexec atof l =
     (let l = GuessParameters regexec atof l
      in if Model l = None \<or> Mounts l = None \<or> CropFactor l \<le> 0 \<or>
            MinFocal l > MaxFocal l \<or> (MaxAperture l \<noteq> 0 \<and> MinAperture l > MaxAperture l) \<or>
            AspectRatio l < 1
         then (False, l) else (True, l))"

text \<open>
  The blocks of \<open>GuessParameters\<close> once more, one definition each, for the proofs:
  the bounds read from the model name (\<open>unknown\<close> stands for
  \<open>!MinAperture || !MinFocal\<close>), the bounds widened by the calibration lists, both
  together, and the five assignments to the fields of the lens.
\<close>

definition name_bounds :: "regexec \<Rightarrow> (string \<Rightarrow> real) \<Rightarrow> string option \<Rightarrow> bool \<Rightarrow> real \<times> real \<times> real" where
  "name_bounds regexec atof model unknown =
     (case model of
        None \<Rightarrow> (float_INT_MAX, float_INT_MIN, float_INT_MAX)
      | Some m \<Rightarrow>
          if unknown \<and>
             \<not> strstr m ''adapter'' \<and>
             \<not> strstr m ''reducer'' \<and>
             \<not> strstr m ''booster'' \<and>
             \<not> strstr m ''extender'' \<and>
             \<not> strstr m ''converter'' \<and>
             regexec extender_magnification_regex m = None
          then snd (lf_parse_lens_name regexec atof model
                      (float_INT_MAX, float_INT_MIN, float_INT_MAX))
          else (float_INT_MAX, float_INT_MIN, float_INT_MAX))"

definition calib_bounds ::
    "real list \<Rightarrow> real list \<Rightarrow> real list \<Rightarrow> real list \<Rightarrow> real list \<Rightarrow> real list
       \<Rightarrow> real \<times> real \<times> real \<Rightarrow> real \<times> real \<times> real \<times> real" where
  "calib_bounds fd ft fv av fc ff b =
     (case b of (minf, maxf, mina) \<Rightarrow>
        (let maxa = float_INT_MIN;
             (minf, maxf) = range_scan fd (minf, maxf);
             (minf, maxf) = range_scan ft (minf, maxf);
             (minf, maxf) = range_scan fv (minf, maxf);
             (mina, maxa) = range_scan av (mina, maxa);
             (minf, maxf) = range_scan fc (minf, maxf);
             (minf, maxf) = range_scan ff (minf, maxf)
         in (minf, maxf, mina, maxa)))"

definition guess_bounds :: "regexec \<Rightarrow> (string \<Rightarrow> real) \<Rightarrow> bool \<Rightarrow> lfLens \<Rightarrow> real \<times> real \<times> real \<times> real" where
  "guess_bounds regexec atof unknown l =
     (if unknown then
        calib_bounds (map Focal_d (entries (CalibDistortion l))) (map Focal_t (entries (CalibTCA l)))
          (map Focal_v (entries (CalibVignetting l))) (map Aperture (entries (CalibVignetting l)))
          (map Focal_c (entries (CalibCrop l))) (map Focal_f (entries (CalibFov l)))
          (name_bounds regexec atof (Model l) unknown)
      else (case name_bounds regexec atof (Model l) unknown of
              (minf, maxf, mina) \<Rightarrow> (minf, maxf, mina, float_INT_MIN)))"

definition fill_bounds :: "real \<times> real \<times> real \<times> real \<Rightarrow> lfLens \<Rightarrow> lfLens" where
  "fill_bounds b l =
     (case b of (minf, maxf, mina, maxa) \<Rightarrow>
      (let
          l = (if minf \<noteq> float_INT_MAX \<and> MinFocal l = 0 then l\<lparr>MinFocal := minf\<rparr> else l);
          l = (if maxf \<noteq> float_INT_MIN \<and> MaxFocal l = 0 then l\<lparr>MaxFocal := maxf\<rparr> else l);
          l = (if mina \<noteq> float_INT_MAX \<and> MinAperture l = 0 then l\<lparr>MinAperture := mina\<rparr> else l);
          l = (if maxa \<noteq> float_INT_MIN \<and> MaxAperture l = 0 then l\<lparr>MaxAperture := maxa\<rparr> else l);
          l = (if MaxFocal l = 0 then l\<lparr>MaxFocal := MinFocal l\<rparr> else l)
      in l))"

section \<open>The records an interpolator takes into account\<close>

text \<open>
  The model of the first record whose model is not NONE (NONE when there is none); the
  model in force for a scan that starts with \<open>dm\<close> latched; the records of the list
  which have that model, which are the ones such a scan does not skip; and the same
  for a scan from the start of the list, where nothing is latched yet.
\<close>

fun first_model :: "('a \<Rightarrow> 'm) \<Rightarrow> 'm \<Rightarrow> 'a list \<Rightarrow> 'm" where
  "first_model model none [] = none"
| "first_model model none (c # cs) =
     (if model c = none then first_model model none cs else model c)"

definition latched :: "('a \<Rightarrow> 'm) \<Rightarrow> 'm \<Rightarrow> 'm \<Rightarrow> 'a list \<Rightarrow> 'm" where
  "latched model none dm cs = (if dm = none then first_model model none cs else dm)"

definition visited :: "('a \<Rightarrow> 'm) \<Rightarrow> 'm \<Rightarrow> 'm \<Rightarrow> 'a list \<Rightarrow> 'a list" where
  "visited model none dm cs =
     filter (\<lambda>c. model c \<noteq> none \<and> model c = latched model none dm cs) cs"

definition considered :: "('a \<Rightarrow> 'm) \<Rightarrow> 'm \<Rightarrow> 'a list \<Rightarrow> 'a list" where
  "considered model none cs = visited model none none cs"


section \<open>Example data\<close>

definition ex_distortion ::
    "lfDistortionModel \<Rightarrow> real \<Rightarrow> real \<Rightarrow> real \<Rightarrow> lfLensCalibDistortion" where
  "ex_distortion m f k1 k2 =
     \<lparr>Model_d = m, Focal_d = f, RealFocal = f, RealFocalMeasured = False,
      Terms_d = [k1, k2, 0, 0, 0]\<rparr>"

definition ex_vignetting ::
    "lfVignettingModel \<Rightarrow> real \<Rightarrow> real \<Rightarrow> real \<Rightarrow> real \<Rightarrow> lfLensCalibVignetting" where
  "ex_vignetting m f a d k1 =
     \<lparr>Model_v = m, Focal_v = f, Aperture = a, Distance = d, Terms_v = [k1, 0, 0]\<rparr>"

text \<open>A 24-70 mm f/2.8 zoom with every field that \<open>Check\<close> asks for, and no calibration data.\<close>

definition ex_lens :: lfLens where
  "ex_lens =
     new_lfLens\<lparr>Model := Some ''Example 24-70mm f/2.8'', Mounts := Some [''M42''],
                MinFocal := 24, MaxFocal := 70, MinAperture := 2.8, MaxAperture := 22,
                CropFactor := 1, AspectRatio := 1.5, Type := LF_RECTILINEAR\<rparr>"

text \<open>A C library without regular expressions: nothing matches, and \<open>atof\<close> is never asked.\<close>

definition ex_regexec :: regexec where
  "ex_regexec rx s = None"

definition ex_atof :: "string \<Rightarrow> real" where
  "ex_atof s = 0"

text \<open>The example lens with distortion samples of two models.\<close>

definition ex_lens_mixed :: lfLens where
  "ex_lens_mixed =
     ex_lens\<lparr>CalibDistortion :=
       Some [ex_distortion LF_DIST_MODEL_POLY3 24 0.1 0,
             ex_distortion LF_DIST_MODEL_PTLENS 50 0.2 0,
             ex_distortion LF_DIST_MODEL_POLY3 70 0.3 0]\<rparr>"


definition ex_lens_far :: lfLens where
  "ex_lens_far =
     ex_lens\<lparr>CalibVignetting := Some [ex_vignetting LF_VIGNETTING_MODEL_PA 24 4 1 0.5]\<rparr>"

definition ex_lens_none :: lfLens where
  "ex_lens_none =
     ex_lens\<lparr>CalibVignetting := Some [ex_vignetting LF_VIGNETTING_MODEL_NONE 24 4 1 0.5]\<rparr>"



section \<open>Properties of the list helpers\<close>

lemma addobj_scan_None:
  "addobj_scan (Some f) v xs n = None \<longleftrightarrow> (\<forall>x\<in>set xs. \<not> f v x)"
  by (induction xs arbitrary: n) auto

lemma addobj_scan_Some:
  "addobj_scan (Some f) v xs n = Some m \<Longrightarrow>
     n \<le> m \<and> m - n < length xs \<and> f v (xs ! (m - n)) \<and> (\<forall>j<m - n. \<not> f v (xs ! j))"
proof (induction xs arbitrary: n)
  case Nil
  then show ?case by simp
next
  case (Cons x xs)
  show ?case
  proof (cases "f v x")
    case True
    with Cons.prems show ?thesis by simp
  next
    case False
    with Cons.prems have s: "addobj_scan (Some f) v xs (Suc n) = Some m" by simp
    from Cons.IH [OF s] have a: "Suc n \<le> m" "m - Suc n < length xs"
      "f v (xs ! (m - Suc n))" "\<forall>j<m - Suc n. \<not> f v (xs ! j)" by auto
    have e: "m - n = Suc (m - Suc n)" using a(1) by arith
    show ?thesis
      using a False by (auto simp: e less_Suc_eq_0_disj)
  qed
qed

lemma lf_addobj_outcome:
  assumes k: "\<And>a b. f a b \<longleftrightarrow> key a = key b"
  shows "add_outcome key (entries var) v (entries (lf_addobj var v (Some f)))"
proof (cases var)
  case None
  then show ?thesis by (simp add: lf_addobj_def add_outcome_def)
next
  case (Some xs)
  show ?thesis
  proof (cases "addobj_scan (Some f) v xs 0")
    case None
    then have "\<forall>x\<in>set xs. key v \<noteq> key x" by (simp add: addobj_scan_None k)
    then have "key v \<notin> key ` set xs" by auto
    with None Some show ?thesis by (simp add: lf_addobj_def add_outcome_def)
  next
    case (Some m)
    note hit = this
    from addobj_scan_Some [OF hit]
    have "m < length xs" "key (xs ! m) = key v" "\<forall>j<m. key (xs ! j) \<noteq> key v"
      by (auto simp: k)
    with \<open>var = Some xs\<close> hit show ?thesis by (auto simp: lf_addobj_def add_outcome_def)
  qed
qed

lemma add_outcome_distinct:
  assumes "add_outcome key xs v ys" "distinct (map key xs)"
  shows "distinct (map key ys)"
  using assms unfolding add_outcome_def
proof (elim disjE bexE conjE)
  fix i assume "i \<in> {..<length xs}" and k: "key (xs ! i) = key v" and ys: "ys = xs[i := v]"
  then have i: "i < length xs" "key (xs ! i) = key v" by simp_all
  have "map key ys = (map key xs)[i := key v]" by (simp add: ys map_update)
  also have "\<dots> = map key xs" using i by (metis list_update_id nth_map)
  finally show ?thesis using assms(2) by simp
next
  assume "key v \<notin> key ` set xs" "ys = xs @ [v]"
  with assms(2) show ?thesis by simp
qed

lemma distinct_removed_at:
  "distinct ys \<Longrightarrow> distinct (removed_at ys i)"
proof (induction ys arbitrary: i)
  case Nil
  then show ?case by (simp add: removed_at_def)
next
  case (Cons y ys)
  show ?case
  proof (cases i)
    case 0
    with Cons.prems show ?thesis by (simp add: removed_at_def)
  next
    case (Suc k)
    have "y \<notin> set (removed_at ys k)"
      using Cons.prems by (auto simp: removed_at_def dest: in_set_takeD in_set_dropD)
    moreover have "distinct (removed_at ys k)" using Cons.prems Cons.IH by simp
    ultimately show ?thesis using Suc by (simp add: removed_at_def)
  qed
qed

lemma removed_at_distinct:
  "distinct (map key xs) \<Longrightarrow> distinct (map key (removed_at xs i))"
  using distinct_removed_at [of "map key xs" i]
  by (simp add: removed_at_def take_map drop_map)

lemma lf_delobj_eq:
  "lf_delobj var idx =
     (if 0 \<le> idx \<and> idx < int (length (entries var))
      then (True, Some (removed_at (entries var) (nat idx)))
      else (False, var))"
  by (cases var) (auto simp: lf_delobj_def removed_at_def Let_def)


lemma removed_at_length:
  "i < length xs \<Longrightarrow> length (removed_at xs i) = length xs - 1"
  by (auto simp: removed_at_def)

lemma removed_at_nth:
  "i < length xs \<Longrightarrow> j < length xs - 1 \<Longrightarrow>
     removed_at xs i ! j = (if j < i then xs ! j else xs ! Suc j)"
  by (auto simp: removed_at_def nth_append min_def)

section \<open>Adding and removing calibration records\<close>

lemma new_lfLens_keys: "calib_keys_distinct new_lfLens"
  by (simp add: calib_keys_distinct_def new_lfLens_def)

lemma lf_delobj_entries:
  "entries (snd (lf_delobj var idx)) =
     (if 0 \<le> idx \<and> idx < int (length (entries var)) then removed_at (entries var) (nat idx)
      else entries var)"
  by (simp add: lf_delobj_eq)

lemma lf_delobj_distinct:
  "distinct (map key (entries var)) \<Longrightarrow> distinct (map key (entries (snd (lf_delobj var idx))))"
  by (simp add: lf_delobj_entries removed_at_distinct)

lemma RemoveCalib_keys:
  assumes "calib_keys_distinct l"
  shows "calib_keys_distinct (snd (RemoveCalibDistortion l idx))"
    and "calib_keys_distinct (snd (RemoveCalibTCA l idx))"
    and "calib_keys_distinct (snd (RemoveCalibVignetting l idx))"
    and "calib_keys_distinct (snd (RemoveCalibCrop l idx))"
    and "calib_keys_distinct (snd (RemoveCalibFov l idx))"
  using assms lf_delobj_distinct [of Focal_d "CalibDistortion l" idx]
    lf_delobj_distinct [of Focal_t "CalibTCA l" idx]
    lf_delobj_distinct [of key_vignetting "CalibVignetting l" idx]
    lf_delobj_distinct [of Focal_c "CalibCrop l" idx]
    lf_delobj_distinct [of Focal_f "CalibFov l" idx]
  by (simp_all add: calib_keys_distinct_def RemoveCalibDistortion_def RemoveCalibTCA_def
      RemoveCalibVignetting_def RemoveCalibCrop_def RemoveCalibFov_def split_def Let_def)

text \<open>
  Claim C9. Every calibration list keeps the invariant that no two entries share the
  same key tuple (the focal length for distortion, TCA, crop and field of view; focal
  length, aperture and distance for vignetting): each of the five \<open>AddCalib\<close> calls
  either overwrites, in place, the entry whose key tuple equals that of the new record,
  so that the length of the list stays, or finds no such entry and appends the record
  at the end; and a lens whose lists have pairwise different keys has them after the
  call as well. The lists of a new lens are empty, and removing an entry keeps the
  keys pairwise different too, so the invariant holds for every lens built by these
  calls.
\<close>

theorem AddCalib_keys_distinct:
  assumes inv: "calib_keys_distinct l"
  shows "(calib_keys_distinct (AddCalibDistortion l dc) \<and>
          add_outcome Focal_d (entries (CalibDistortion l)) dc
            (entries (CalibDistortion (AddCalibDistortion l dc))))
       \<and> (calib_keys_distinct (AddCalibTCA l tcac) \<and>
          add_outcome Focal_t (entries (CalibTCA l)) tcac
            (entries (CalibTCA (AddCalibTCA l tcac))))
       \<and> (calib_keys_distinct (AddCalibVignetting l vc) \<and>
          add_outcome key_vignetting (entries (CalibVignetting l)) vc
            (entries (CalibVignetting (AddCalibVignetting l vc))))
       \<and> (calib_keys_distinct (AddCalibCrop l lcc) \<and>
          add_outcome Focal_c (entries (CalibCrop l)) lcc
            (entries (CalibCrop (AddCalibCrop l lcc))))
       \<and> (calib_keys_distinct (AddCalibFov l lcf) \<and>
          add_outcome Focal_f (entries (CalibFov l)) lcf
            (entries (CalibFov (AddCalibFov l lcf))))
       \<and> calib_keys_distinct (snd (RemoveCalibDistortion l idx))
       \<and> calib_keys_distinct (snd (RemoveCalibTCA l idx))
       \<and> calib_keys_distinct (snd (RemoveCalibVignetting l idx))
       \<and> calib_keys_distinct (snd (RemoveCalibCrop l idx))
       \<and> calib_keys_distinct (snd (RemoveCalibFov l idx))
       \<and> calib_keys_distinct new_lfLens"
proof -
  have d: "add_outcome Focal_d (entries (CalibDistortion l)) dc
            (entries (lf_addobj (CalibDistortion l) dc (Some cmp_distortion)))"
    by (rule lf_addobj_outcome) (simp add: cmp_distortion_def)
  have t: "add_outcome Focal_t (entries (CalibTCA l)) tcac
            (entries (lf_addobj (CalibTCA l) tcac (Some cmp_tca)))"
    by (rule lf_addobj_outcome) (simp add: cmp_tca_def)
  have v: "add_outcome key_vignetting (entries (CalibVignetting l)) vc
            (entries (lf_addobj (CalibVignetting l) vc (Some cmp_vignetting)))"
    by (rule lf_addobj_outcome) (auto simp: cmp_vignetting_def key_vignetting_def)
  have c: "add_outcome Focal_c (entries (CalibCrop l)) lcc
            (entries (lf_addobj (CalibCrop l) lcc (Some cmp_lenscrop)))"
    by (rule lf_addobj_outcome) (simp add: cmp_lenscrop_def)
  have f: "add_outcome Focal_f (entries (CalibFov l)) lcf
            (entries (lf_addobj (CalibFov l) lcf (Some cmp_lensfov)))"
    by (rule lf_addobj_outcome) (simp add: cmp_lensfov_def)
  from inv have i: "distinct (map Focal_d (entries (CalibDistortion l)))"
    "distinct (map Focal_t (entries (CalibTCA l)))"
    "distinct (map key_vignetting (entries (CalibVignetting l)))"
    "distinct (map Focal_c (entries (CalibCrop l)))"
    "distinct (map Focal_f (entries (CalibFov l)))"
    by (simp_all add: calib_keys_distinct_def)
  note dd = add_outcome_distinct [OF d i(1)] add_outcome_distinct [OF t i(2)]
    add_outcome_distinct [OF v i(3)] add_outcome_distinct [OF c i(4)]
    add_outcome_distinct [OF f i(5)]
  have add: "(calib_keys_distinct (AddCalibDistortion l dc) \<and>
          add_outcome Focal_d (entries (CalibDistortion l)) dc
            (entries (CalibDistortion (AddCalibDistortion l dc))))
       \<and> (calib_keys_distinct (AddCalibTCA l tcac) \<and>
          add_outcome Focal_t (entries (CalibTCA l)) tcac
            (entries (CalibTCA (AddCalibTCA l tcac))))
       \<and> (calib_keys_distinct (AddCalibVignetting l vc) \<and>
          add_outcome key_vignetting (entries (CalibVignetting l)) vc
            (entries (CalibVignetting (AddCalibVignetting l vc))))
       \<and> (calib_keys_distinct (AddCalibCrop l lcc) \<and>
          add_outcome Focal_c (entries (CalibCrop l)) lcc
            (entries (CalibCrop (AddCalibCrop l lcc))))
       \<and> (calib_keys_distinct (AddCalibFov l lcf) \<and>
          add_outcome Focal_f (entries (CalibFov l)) lcf
            (entries (CalibFov (AddCalibFov l lcf))))"
    using d t v c f dd i
    by (simp add: calib_keys_distinct_def AddCalibDistortion_def AddCalibTCA_def
        AddCalibVignetting_def AddCalibCrop_def AddCalibFov_def)
  show ?thesis
    using add RemoveCalib_keys [OF inv, of idx] new_lfLens_keys by blast
qed

text \<open>
  The theorem at a lens with distortion records at 24 mm and 70 mm and a new record for
  24 mm: the keys stay pairwise different, and the new record has taken the first place.
\<close>

theorem AddCalib_keys_distinct_witness:
  "calib_keys_distinct
     (ex_lens\<lparr>CalibDistortion :=
        Some [ex_distortion LF_DIST_MODEL_POLY3 24 0.1 0, ex_distortion LF_DIST_MODEL_POLY3 70 0.2 0]\<rparr>)
   \<and> calib_keys_distinct
       (AddCalibDistortion
          (ex_lens\<lparr>CalibDistortion :=
             Some [ex_distortion LF_DIST_MODEL_POLY3 24 0.1 0, ex_distortion LF_DIST_MODEL_POLY3 70 0.2 0]\<rparr>)
          (ex_distortion LF_DIST_MODEL_POLY5 24 0.3 0))
   \<and> CalibDistortion
       (AddCalibDistortion
          (ex_lens\<lparr>CalibDistortion :=
             Some [ex_distortion LF_DIST_MODEL_POLY3 24 0.1 0, ex_distortion LF_DIST_MODEL_POLY3 70 0.2 0]\<rparr>)
          (ex_distortion LF_DIST_MODEL_POLY5 24 0.3 0))
     = Some [ex_distortion LF_DIST_MODEL_POLY5 24 0.3 0, ex_distortion LF_DIST_MODEL_POLY3 70 0.2 0]"
proof -
  let ?l = "ex_lens\<lparr>CalibDistortion :=
        Some [ex_distortion LF_DIST_MODEL_POLY3 24 0.1 0, ex_distortion LF_DIST_MODEL_POLY3 70 0.2 0]\<rparr>"
  have h: "calib_keys_distinct ?l"
    by (simp add: calib_keys_distinct_def ex_lens_def new_lfLens_def ex_distortion_def)
  have e: "CalibDistortion (AddCalibDistortion ?l (ex_distortion LF_DIST_MODEL_POLY5 24 0.3 0))
     = Some [ex_distortion LF_DIST_MODEL_POLY5 24 0.3 0, ex_distortion LF_DIST_MODEL_POLY3 70 0.2 0]"
    by (simp add: AddCalibDistortion_def lf_addobj_def cmp_distortion_def ex_distortion_def)
  show ?thesis
    using h e AddCalib_keys_distinct [OF h, of "ex_distortion LF_DIST_MODEL_POLY5 24 0.3 0"]
    by simp
qed

text \<open>
  Claim C10. For every lens and every kind of calibration list, \<open>RemoveCalib (idx)\<close>
  returns true exactly when \<open>0 \<le> idx\<close> and \<open>idx\<close> is less than the number of entries of
  that list; then the entry at position \<open>idx\<close> is gone and the other entries keep their
  order; when it returns false the lens, and so the list, is as before.
\<close>

theorem RemoveCalib_result:
  "RemoveCalibDistortion l idx =
     (if 0 \<le> idx \<and> idx < int (length (entries (CalibDistortion l)))
      then (True, l\<lparr>CalibDistortion := Some (removed_at (entries (CalibDistortion l)) (nat idx))\<rparr>)
      else (False, l))
   \<and> RemoveCalibTCA l idx =
     (if 0 \<le> idx \<and> idx < int (length (entries (CalibTCA l)))
      then (True, l\<lparr>CalibTCA := Some (removed_at (entries (CalibTCA l)) (nat idx))\<rparr>)
      else (False, l))
   \<and> RemoveCalibVignetting l idx =
     (if 0 \<le> idx \<and> idx < int (length (entries (CalibVignetting l)))
      then (True, l\<lparr>CalibVignetting := Some (removed_at (entries (CalibVignetting l)) (nat idx))\<rparr>)
      else (False, l))
   \<and> RemoveCalibCrop l idx =
     (if 0 \<le> idx \<and> idx < int (length (entries (CalibCrop l)))
      then (True, l\<lparr>CalibCrop := Some (removed_at (entries (CalibCrop l)) (nat idx))\<rparr>)
      else (False, l))
   \<and> RemoveCalibFov l idx =
     (if 0 \<le> idx \<and> idx < int (length (entries (CalibFov l)))
      then (True, l\<lparr>CalibFov := Some (removed_at (entries (CalibFov l)) (nat idx))\<rparr>)
      else (False, l))"
  by (simp add: RemoveCalibDistortion_def RemoveCalibTCA_def RemoveCalibVignetting_def
      RemoveCalibCrop_def RemoveCalibFov_def lf_delobj_eq)

section \<open>Parameter-axis scale factors\<close>

text \<open>
  Claim C6. The factor by which a term is multiplied before the interpolation and
  divided after it, as a function of the focal length \<open>f\<close> and the index \<open>i\<close> of the
  term: \<open>f\<close> for the distortion models POLY3, POLY5 and PTLENS; \<open>f / f ^ (2 (i + 1))\<close>
  for the ACM distortion term \<open>i < 3\<close> and \<open>f / f ^ 1\<close> for the others; 1 for the terms
  0 and 1 of the TCA models LINEAR and POLY3; \<open>f / f ^ (2 (i div 2))\<close> for the ACM TCA
  term \<open>1 < i < 8\<close> and \<open>f / f ^ 1\<close> for the others; 1 for PA vignetting; and
  \<open>1 / f ^ (2 (i + 1))\<close> for the ACM vignetting term \<open>i\<close>.
\<close>

theorem parameter_scales_factors:
  "parameter_scales vs LF_MODIFY_DISTORTION (int_of_lfDistortionModel LF_DIST_MODEL_POLY3) i = vs
   \<and> parameter_scales vs LF_MODIFY_DISTORTION (int_of_lfDistortionModel LF_DIST_MODEL_POLY5) i = vs
   \<and> parameter_scales vs LF_MODIFY_DISTORTION (int_of_lfDistortionModel LF_DIST_MODEL_PTLENS) i = vs
   \<and> parameter_scales vs LF_MODIFY_DISTORTION (int_of_lfDistortionModel LF_DIST_MODEL_ACM) i
       = map (\<lambda>f. f / f ^ (if i < 3 then 2 * (i + 1) else 1)) vs
   \<and> parameter_scales vs LF_MODIFY_TCA (int_of_lfTCAModel LF_TCA_MODEL_LINEAR) 0 = map (\<lambda>f. 1) vs
   \<and> parameter_scales vs LF_MODIFY_TCA (int_of_lfTCAModel LF_TCA_MODEL_LINEAR) 1 = map (\<lambda>f. 1) vs
   \<and> parameter_scales vs LF_MODIFY_TCA (int_of_lfTCAModel LF_TCA_MODEL_POLY3) 0 = map (\<lambda>f. 1) vs
   \<and> parameter_scales vs LF_MODIFY_TCA (int_of_lfTCAModel LF_TCA_MODEL_POLY3) 1 = map (\<lambda>f. 1) vs
   \<and> parameter_scales vs LF_MODIFY_TCA (int_of_lfTCAModel LF_TCA_MODEL_ACM) i
       = map (\<lambda>f. f / f ^ (if 1 < i \<and> i < 8 then 2 * (i div 2) else 1)) vs
   \<and> parameter_scales vs LF_MODIFY_VIGNETTING (int_of_lfVignettingModel LF_VIGNETTING_MODEL_PA) i
       = map (\<lambda>f. 1) vs
   \<and> parameter_scales vs LF_MODIFY_VIGNETTING (int_of_lfVignettingModel LF_VIGNETTING_MODEL_ACM) i
       = map (\<lambda>f. 1 / f ^ (2 * (i + 1))) vs"
  by (simp add: parameter_scales_def LF_MODIFY_DISTORTION_def LF_MODIFY_TCA_def
      LF_MODIFY_VIGNETTING_def Let_def mult.commute)

section \<open>The distance between a query and a vignetting sample\<close>

lemma sqrt_225: "sqrt 225 = 15"
  using real_sqrt_abs [of 15] by simp

text \<open>
  Claim C7 says that for a lens with \<open>MaxFocal = MinFocal\<close> the normalized focal
  coordinate is set to 0 and the distance depends on the aperture and distance axes
  only. On a 50 mm prime, a sample taken at 35 mm and a sample taken at 50 mm, with
  the same aperture and focus distance, are at the distances 15 and 0 from a query
  at 50 mm.
\<close>

theorem vignetting_dist_focal_counterexample:
  "MaxFocal (ex_lens\<lparr>MinFocal := 50, MaxFocal := 50\<rparr>) = MinFocal (ex_lens\<lparr>MinFocal := 50, MaxFocal := 50\<rparr>)
   \<and> vignetting_dist (ex_lens\<lparr>MinFocal := 50, MaxFocal := 50\<rparr>)
        (ex_vignetting LF_VIGNETTING_MODEL_PA 35 4 1 0.1) 50 4 1 = 15
   \<and> vignetting_dist (ex_lens\<lparr>MinFocal := 50, MaxFocal := 50\<rparr>)
        (ex_vignetting LF_VIGNETTING_MODEL_PA 50 4 1 0.1) 50 4 1 = 0
   \<and> Aperture (ex_vignetting LF_VIGNETTING_MODEL_PA 35 4 1 0.1)
       = Aperture (ex_vignetting LF_VIGNETTING_MODEL_PA 50 4 1 0.1)
   \<and> Distance (ex_vignetting LF_VIGNETTING_MODEL_PA 35 4 1 0.1)
       = Distance (ex_vignetting LF_VIGNETTING_MODEL_PA 50 4 1 0.1)"
  by (simp add: vignetting_dist_def ex_vignetting_def ex_lens_def new_lfLens_def square_def
      sqrt_225 Let_def)

text \<open>
  Claim C7, amended. For a lens with \<open>MaxFocal = MinFocal\<close> the focal axis is not
  divided by the zero range: the two focal coordinates stay \<open>focal - MinFocal\<close>, in
  millimetres, and the distance is the root of the squared difference of the two focal
  lengths plus the squared differences on the aperture and the distance axis.
\<close>

theorem vignetting_dist_equal_focal_range:
  assumes "MaxFocal l = MinFocal l"
  shows "vignetting_dist l x focal aperture distance =
           sqrt (square (Focal_v x - focal) + square (4 / Aperture x - 4 / aperture)
                 + square (0.1 / Distance x - 0.1 / distance))"
  using assms by (simp add: vignetting_dist_def Let_def)

theorem vignetting_dist_equal_focal_range_witness:
  "MaxFocal (ex_lens\<lparr>MinFocal := 50, MaxFocal := 50\<rparr>) = MinFocal (ex_lens\<lparr>MinFocal := 50, MaxFocal := 50\<rparr>)
   \<and> vignetting_dist (ex_lens\<lparr>MinFocal := 50, MaxFocal := 50\<rparr>)
        (ex_vignetting LF_VIGNETTING_MODEL_PA 35 4 2 0.1) 50 4 1 = sqrt (225 + 1 / 400)"
proof -
  have h: "MaxFocal (ex_lens\<lparr>MinFocal := 50, MaxFocal := 50\<rparr>) = MinFocal (ex_lens\<lparr>MinFocal := 50, MaxFocal := 50\<rparr>)"
    by simp
  show ?thesis
    using vignetting_dist_equal_focal_range [OF h, of "ex_vignetting LF_VIGNETTING_MODEL_PA 35 4 2 0.1" 50 4 1]
    by (simp add: ex_vignetting_def square_def)
qed

section \<open>Interpolating between two distortion samples\<close>

lemma upt_5: "[0..<5] = [0, 1, 2, 3, 4]"
  by (simp add: upt_rec)

text \<open>
  Two POLY5 samples at 24 mm and 70 mm, in either order, and a query at 47 mm: both
  inner spline slots are filled, the outer ones are not, \<open>t\<close> is one half, and every
  term is the mean of the two terms multiplied by their focal lengths, divided by 47.
\<close>

lemma InterpolateDistortion_two_POLY5:
  assumes l: "CalibDistortion l = Some [c1, c2] \<or> CalibDistortion l = Some [c2, c1]"
    and c1: "Model_d c1 = LF_DIST_MODEL_POLY5" "Focal_d c1 = 24"
    and c2: "Model_d c2 = LF_DIST_MODEL_POLY5" "Focal_d c2 = 70"
  shows "InterpolateDistortion l 47 res =
     (True, res\<lparr>Model_d := LF_DIST_MODEL_POLY5, Focal_d := 47,
        RealFocal := (RealFocal c1 + RealFocal c2) / 2,
        Terms_d := map (\<lambda>i. (Terms_d c1 ! i * 24 + Terms_d c2 ! i * 70) / 2 / 47) [0..<5]\<rparr>)"
  using l
proof
  assume "CalibDistortion l = Some [c1, c2]"
  then show ?thesis
    using c1 c2
    by (simp add: InterpolateDistortion_def spline_init_def spline_dist_init_def
        insert_spline_def FLT_MAX_def Let_def slot_or_FLT_MAX_def slot_or_NAN_def
        parameter_scales_def LF_MODIFY_DISTORTION_def lf_interpolate_def field_simps)
next
  assume "CalibDistortion l = Some [c2, c1]"
  then show ?thesis
    using c1 c2
    by (simp add: InterpolateDistortion_def spline_init_def spline_dist_init_def
        insert_spline_def FLT_MAX_def Let_def slot_or_FLT_MAX_def slot_or_NAN_def
        parameter_scales_def LF_MODIFY_DISTORTION_def lf_interpolate_def field_simps)
qed

text \<open>
  Claim C3 says that for a lens whose distortion list holds exactly two POLY5 records,
  at 24 mm with \<open>k1 = 0.05\<close>, \<open>k2 = 0\<close> and at 70 mm with \<open>k1 = -0.02\<close>, \<open>k2 = 0\<close>,
  the query at 47 mm returns true with \<open>k1 = 0.015\<close> and \<open>k2 = 0\<close>. The call returns
  true, and \<open>k1\<close> is not 0.015.
\<close>

theorem InterpolateDistortion_POLY5_counterexample:
  "\<not> (fst (InterpolateDistortion
            (ex_lens\<lparr>CalibDistortion := Some [ex_distortion LF_DIST_MODEL_POLY5 24 0.05 0,
                                                ex_distortion LF_DIST_MODEL_POLY5 70 (- 0.02) 0]\<rparr>)
            47 (ex_distortion LF_DIST_MODEL_NONE 0 0 0))
       \<and> Terms_d (snd (InterpolateDistortion
            (ex_lens\<lparr>CalibDistortion := Some [ex_distortion LF_DIST_MODEL_POLY5 24 0.05 0,
                                                ex_distortion LF_DIST_MODEL_POLY5 70 (- 0.02) 0]\<rparr>)
            47 (ex_distortion LF_DIST_MODEL_NONE 0 0 0))) ! 0 = 0.015
       \<and> Terms_d (snd (InterpolateDistortion
            (ex_lens\<lparr>CalibDistortion := Some [ex_distortion LF_DIST_MODEL_POLY5 24 0.05 0,
                                                ex_distortion LF_DIST_MODEL_POLY5 70 (- 0.02) 0]\<rparr>)
            47 (ex_distortion LF_DIST_MODEL_NONE 0 0 0))) ! 1 = 0)"
proof -
  let ?c1 = "ex_distortion LF_DIST_MODEL_POLY5 24 0.05 0"
  let ?c2 = "ex_distortion LF_DIST_MODEL_POLY5 70 (- 0.02) 0"
  let ?l = "ex_lens\<lparr>CalibDistortion := Some [?c1, ?c2]\<rparr>"
  have "CalibDistortion ?l = Some [?c1, ?c2] \<or> CalibDistortion ?l = Some [?c2, ?c1]"
    by simp
  from InterpolateDistortion_two_POLY5 [OF this]
  show ?thesis
    by (simp add: ex_distortion_def upt_5)
qed

text \<open>
  Claim C3, amended. For a lens whose distortion list holds exactly two POLY5 records,
  at 24 mm with \<open>k1 = 0.05\<close>, \<open>k2 = 0\<close> and at 70 mm with \<open>k1 = -0.02\<close>, \<open>k2 = 0\<close>,
  the query at 47 mm returns true with model POLY5, focal length 47,
  \<open>k1 = ((0.05 * 24 + (-0.02) * 70) / 2) / 47 = -1/470\<close> (about -0.0021, in exact
  arithmetic) and \<open>k2 = 0\<close>: the terms are interpolated after multiplication by the
  focal length of their sample and divided by the focal length of the query.
\<close>

theorem InterpolateDistortion_POLY5_24_70:
  assumes "CalibDistortion l = Some [c1, c2] \<or> CalibDistortion l = Some [c2, c1]"
    and "Model_d c1 = LF_DIST_MODEL_POLY5" and "Focal_d c1 = 24"
    and "Terms_d c1 ! 0 = 0.05" and "Terms_d c1 ! 1 = 0"
    and "Model_d c2 = LF_DIST_MODEL_POLY5" and "Focal_d c2 = 70"
    and "Terms_d c2 ! 0 = - 0.02" and "Terms_d c2 ! 1 = 0"
  shows "fst (InterpolateDistortion l 47 res)
       \<and> Model_d (snd (InterpolateDistortion l 47 res)) = LF_DIST_MODEL_POLY5
       \<and> Focal_d (snd (InterpolateDistortion l 47 res)) = 47
       \<and> Terms_d (snd (InterpolateDistortion l 47 res)) ! 0 = - 1 / 470
       \<and> Terms_d (snd (InterpolateDistortion l 47 res)) ! 1 = 0"
  using assms(4,5,8,9)
  by (simp add: InterpolateDistortion_two_POLY5 [OF assms(1,2,3,6,7)] upt_5)

theorem InterpolateDistortion_POLY5_24_70_witness:
  "fst (InterpolateDistortion
          (ex_lens\<lparr>CalibDistortion := Some [ex_distortion LF_DIST_MODEL_POLY5 70 (- 0.02) 0,
                                              ex_distortion LF_DIST_MODEL_POLY5 24 0.05 0]\<rparr>)
          47 (ex_distortion LF_DIST_MODEL_NONE 0 0 0))
   \<and> Terms_d (snd (InterpolateDistortion
          (ex_lens\<lparr>CalibDistortion := Some [ex_distortion LF_DIST_MODEL_POLY5 70 (- 0.02) 0,
                                              ex_distortion LF_DIST_MODEL_POLY5 24 0.05 0]\<rparr>)
          47 (ex_distortion LF_DIST_MODEL_NONE 0 0 0))) ! 0 = - 1 / 470
   \<and> Terms_d (snd (InterpolateDistortion
          (ex_lens\<lparr>CalibDistortion := Some [ex_distortion LF_DIST_MODEL_POLY5 70 (- 0.02) 0,
                                              ex_distortion LF_DIST_MODEL_POLY5 24 0.05 0]\<rparr>)
          47 (ex_distortion LF_DIST_MODEL_NONE 0 0 0))) ! 1 = 0"
proof -
  let ?c1 = "ex_distortion LF_DIST_MODEL_POLY5 24 0.05 0"
  let ?c2 = "ex_distortion LF_DIST_MODEL_POLY5 70 (- 0.02) 0"
  let ?l = "ex_lens\<lparr>CalibDistortion := Some [?c2, ?c1]\<rparr>"
  have h: "CalibDistortion ?l = Some [?c1, ?c2] \<or> CalibDistortion ?l = Some [?c2, ?c1]"
    by simp
  have m: "Model_d ?c1 = LF_DIST_MODEL_POLY5" "Focal_d ?c1 = 24"
    "Terms_d ?c1 ! 0 = 0.05" "Terms_d ?c1 ! 1 = 0"
    "Model_d ?c2 = LF_DIST_MODEL_POLY5" "Focal_d ?c2 = 70"
    "Terms_d ?c2 ! 0 = - 0.02" "Terms_d ?c2 ! 1 = 0"
    by (simp_all add: ex_distortion_def)
  from InterpolateDistortion_POLY5_24_70 [OF h m, of "ex_distortion LF_DIST_MODEL_NONE 0 0 0"]
  show ?thesis by simp
qed

section \<open>Guessing parameters twice\<close>

lemma fill_bounds_tuple:
  "(let l = (if minf \<noteq> float_INT_MAX \<and> MinFocal l = 0 then l\<lparr>MinFocal := minf\<rparr> else l);
        l = (if maxf \<noteq> float_INT_MIN \<and> MaxFocal l = 0 then l\<lparr>MaxFocal := maxf\<rparr> else l);
        l = (if mina \<noteq> float_INT_MAX \<and> MinAperture l = 0 then l\<lparr>MinAperture := mina\<rparr> else l);
        l = (if maxa \<noteq> float_INT_MIN \<and> MaxAperture l = 0 then l\<lparr>MaxAperture := maxa\<rparr> else l);
        l = (if MaxFocal l = 0 then l\<lparr>MaxFocal := MinFocal l\<rparr> else l)
    in l) = fill_bounds (minf, maxf, mina, maxa) l"
  unfolding fill_bounds_def prod.case ..

lemma GuessParameters_fill:
  "GuessParameters regexec atof l =
     fill_bounds (guess_bounds regexec atof (MinAperture l = 0 \<or> MinFocal l = 0) l) l"
proof -
  have "GuessParameters regexec atof l =
     (let minf = float_INT_MAX; maxf = float_INT_MIN;
          mina = float_INT_MAX; maxa = float_INT_MIN;
          (minf, maxf, mina) =
            (case Model l of
               None \<Rightarrow> (minf, maxf, mina)
             | Some m \<Rightarrow>
                 if (MinAperture l = 0 \<or> MinFocal l = 0) \<and>
                    \<not> strstr m ''adapter'' \<and>
                    \<not> strstr m ''reducer'' \<and>
                    \<not> strstr m ''booster'' \<and>
                    \<not> strstr m ''extender'' \<and>
                    \<not> strstr m ''converter'' \<and>
                    regexec extender_magnification_regex m = None
                 then snd (lf_parse_lens_name regexec atof (Model l) (minf, maxf, mina))
                 else (minf, maxf, mina));
          (minf, maxf, mina, maxa) =
            (if MinAperture l = 0 \<or> MinFocal l = 0 then
               (let (minf, maxf) = range_scan (map Focal_d (entries (CalibDistortion l))) (minf, maxf);
                    (minf, maxf) = range_scan (map Focal_t (entries (CalibTCA l))) (minf, maxf);
                    (minf, maxf) = range_scan (map Focal_v (entries (CalibVignetting l))) (minf, maxf);
                    (mina, maxa) = range_scan (map Aperture (entries (CalibVignetting l))) (mina, maxa);
                    (minf, maxf) = range_scan (map Focal_c (entries (CalibCrop l))) (minf, maxf);
                    (minf, maxf) = range_scan (map Focal_f (entries (CalibFov l))) (minf, maxf)
                in (minf, maxf, mina, maxa))
             else (minf, maxf, mina, maxa))
      in fill_bounds (minf, maxf, mina, maxa) l)"
    unfolding GuessParameters_def fill_bounds_tuple ..
  also have "\<dots> = fill_bounds (guess_bounds regexec atof (MinAperture l = 0 \<or> MinFocal l = 0) l) l"
    unfolding guess_bounds_def name_bounds_def calib_bounds_def
    by (cases "Model l"; cases "MinAperture l = 0 \<or> MinFocal l = 0")
       (simp_all only: Let_def case_prod_beta if_True if_False option.case fst_conv snd_conv simp_thms prod.collapse)
  finally show ?thesis .
qed


lemma fill_bounds_eq:
  "fill_bounds (minf, maxf, mina, maxa) l =
     l\<lparr>MinFocal := (if minf \<noteq> float_INT_MAX \<and> MinFocal l = 0 then minf else MinFocal l),
       MaxFocal := (if (if maxf \<noteq> float_INT_MIN \<and> MaxFocal l = 0 then maxf else MaxFocal l) = 0
                    then (if minf \<noteq> float_INT_MAX \<and> MinFocal l = 0 then minf else MinFocal l)
                    else (if maxf \<noteq> float_INT_MIN \<and> MaxFocal l = 0 then maxf else MaxFocal l)),
       MinAperture := (if mina \<noteq> float_INT_MAX \<and> MinAperture l = 0 then mina else MinAperture l),
       MaxAperture := (if maxa \<noteq> float_INT_MIN \<and> MaxAperture l = 0 then maxa else MaxAperture l)\<rparr>"
  by (simp add: fill_bounds_def Let_def)

lemma fill_bounds_fields:
  "Model (fill_bounds b l) = Model l"
  "CalibDistortion (fill_bounds b l) = CalibDistortion l"
  "CalibTCA (fill_bounds b l) = CalibTCA l"
  "CalibVignetting (fill_bounds b l) = CalibVignetting l"
  "CalibCrop (fill_bounds b l) = CalibCrop l"
  "CalibFov (fill_bounds b l) = CalibFov l"
  "Mounts (fill_bounds b l) = Mounts l"
  "CropFactor (fill_bounds b l) = CropFactor l"
  "AspectRatio (fill_bounds b l) = AspectRatio l"
  by (cases b; simp add: fill_bounds_eq)+

lemma fill_bounds_idem: "fill_bounds b (fill_bounds b l) = fill_bounds b l"
  by (cases b) (simp add: fill_bounds_eq)

lemma fill_bounds_sentinels:
  assumes "MinFocal l \<noteq> 0" "MaxFocal l \<noteq> 0"
  shows "fill_bounds (float_INT_MAX, float_INT_MIN, float_INT_MAX, float_INT_MIN) l = l"
  using assms by (simp add: fill_bounds_eq)

lemma fill_bounds_MaxFocal:
  "MinFocal (fill_bounds b l) \<noteq> 0 \<Longrightarrow> MaxFocal (fill_bounds b l) \<noteq> 0"
  by (cases b) (simp add: fill_bounds_eq split: if_splits)

lemma fill_bounds_unknown:
  "MinAperture (fill_bounds b l) = 0 \<or> MinFocal (fill_bounds b l) = 0
     \<Longrightarrow> MinAperture l = 0 \<or> MinFocal l = 0"
  by (cases b) (simp add: fill_bounds_eq split: if_splits)

lemma guess_bounds_fill:
  "guess_bounds regexec atof u (fill_bounds b l) = guess_bounds regexec atof u l"
  by (simp add: guess_bounds_def fill_bounds_fields)

lemma guess_bounds_known:
  "guess_bounds regexec atof False l = (float_INT_MAX, float_INT_MIN, float_INT_MAX, float_INT_MIN)"
  by (simp add: guess_bounds_def name_bounds_def split: option.splits)

text \<open>
  Claim C8. \<open>GuessParameters\<close> is idempotent: for every state of the lens, and whatever
  the regex matcher and \<open>atof\<close> of the C library return, calling it twice in succession
  leaves the lens in the state in which one call leaves it.
\<close>

theorem GuessParameters_idempotent:
  "GuessParameters regexec atof (GuessParameters regexec atof l) = GuessParameters regexec atof l"
proof -
  let ?u = "MinAperture l = 0 \<or> MinFocal l = 0"
  let ?b = "guess_bounds regexec atof ?u l"
  let ?l' = "fill_bounds ?b l"
  have 1: "GuessParameters regexec atof l = ?l'" by (rule GuessParameters_fill)
  show ?thesis
  proof (cases "MinAperture ?l' = 0 \<or> MinFocal ?l' = 0")
    case True
    then have u: ?u by (rule fill_bounds_unknown)
    have "GuessParameters regexec atof ?l' = fill_bounds (guess_bounds regexec atof True ?l') ?l'"
      using True by (simp add: GuessParameters_fill [of _ _ ?l'])
    also have "guess_bounds regexec atof True ?l' = ?b"
      using u by (simp add: guess_bounds_fill)
    finally show ?thesis by (simp add: 1 fill_bounds_idem)
  next
    case False
    then have "GuessParameters regexec atof ?l' = fill_bounds (guess_bounds regexec atof False ?l') ?l'"
      by (simp add: GuessParameters_fill [of _ _ ?l'])
    also have "\<dots> = ?l'"
      using False fill_bounds_MaxFocal [of ?b l]
      by (simp add: guess_bounds_known fill_bounds_sentinels)
    finally show ?thesis by (simp add: 1)
  qed
qed


section \<open>The scanning loop of the spline interpolators\<close>

lemma latched_skip_none:
  "model c = none \<Longrightarrow> latched model none dm (c # cs) = latched model none dm cs"
  by (simp add: latched_def)

lemma latched_set: "dm \<noteq> none \<Longrightarrow> latched model none dm cs = dm"
  by (simp add: latched_def)

lemma latched_take:
  "model c \<noteq> none \<Longrightarrow> dm = none \<or> dm = model c \<Longrightarrow>
     latched model none dm (c # cs) = model c"
  by (auto simp: latched_def)

lemma visited_skip_none:
  "model c = none \<Longrightarrow> visited model none dm (c # cs) = visited model none dm cs"
  by (simp add: visited_def latched_skip_none)

lemma visited_skip_other:
  "dm \<noteq> none \<Longrightarrow> dm \<noteq> model c \<Longrightarrow> visited model none dm (c # cs) = visited model none dm cs"
  by (simp add: visited_def latched_set)

lemma visited_take:
  assumes "model c \<noteq> none" "dm = none \<or> dm = model c"
  shows "visited model none dm (c # cs) = c # visited model none (model c) cs"
proof -
  have "latched model none dm (c # cs) = model c" using assms by (rule latched_take)
  moreover have "latched model none (model c) cs = model c" using assms(1) by (rule latched_set)
  ultimately show ?thesis using assms(1) by (simp add: visited_def)
qed

lemma visited_models:
  "x \<in> set (visited model none dm cs) \<Longrightarrow> model x \<noteq> none \<and> model x = latched model none dm cs"
  by (auto simp: visited_def)

lemma spline_scan_visited:
  "spline_scan model none foc focal cs dm sp sd =
     spline_scan model none foc focal (visited model none dm cs) dm sp sd"
proof (induction cs arbitrary: dm sp sd)
  case Nil
  show ?case by (simp add: visited_def)
next
  case (Cons c cs)
  consider (none) "model c = none"
    | (other) "model c \<noteq> none" "dm \<noteq> none" "dm \<noteq> model c"
    | (take) "model c \<noteq> none" "dm = none \<or> dm = model c" by blast
  then show ?case
  proof cases
    case none
    then show ?thesis using Cons.IH by (simp add: visited_skip_none)
  next
    case other
    then show ?thesis using Cons.IH by (simp add: visited_skip_other)
  next
    case take
    have dm': "(if dm = none then model c else dm) = model c" using take by auto
    show ?thesis
    proof (cases "focal - foc c = 0")
      case True
      then show ?thesis using take by (auto simp: visited_take Let_def)
    next
      case False
      obtain sp' sd' r where ins: "insert_spline sp sd (focal - foc c) c = (sp', sd', r)"
        by (cases "insert_spline sp sd (focal - foc c) c") auto
      have l: "spline_scan model none foc focal (c # cs) dm sp sd
               = spline_scan model none foc focal cs (model c) sp' sd'"
        using take False ins dm' by (auto simp: Let_def)
      have r: "spline_scan model none foc focal (c # visited model none (model c) cs) dm sp sd
               = spline_scan model none foc focal (visited model none (model c) cs) (model c) sp' sd'"
        using take False ins dm' by (auto simp: Let_def)
      show ?thesis
        using Cons.IH [of "model c" sp' sd'] l r take by (simp add: visited_take)
    qed
  qed
qed

lemma spline_scan_exact:
  "find (\<lambda>c. foc c = focal) (visited model none dm cs) = Some c \<Longrightarrow>
     spline_scan model none foc focal cs dm sp sd = Inl c"
proof (induction cs arbitrary: dm sp sd)
  case Nil
  then show ?case by (simp add: visited_def)
next
  case (Cons x cs)
  consider (none) "model x = none"
    | (other) "model x \<noteq> none" "dm \<noteq> none" "dm \<noteq> model x"
    | (take) "model x \<noteq> none" "dm = none \<or> dm = model x" by blast
  then show ?case
  proof cases
    case none
    then show ?thesis using Cons by (simp add: visited_skip_none)
  next
    case other
    then show ?thesis using Cons by (simp add: visited_skip_other)
  next
    case take
    have dm': "(if dm = none then model x else dm) = model x" using take by auto
    show ?thesis
    proof (cases "foc x = focal")
      case True
      then show ?thesis using take Cons.prems by (auto simp: visited_take Let_def)
    next
      case False
      then have f: "find (\<lambda>c. foc c = focal) (visited model none (model x) cs) = Some c"
        using Cons.prems take by (simp add: visited_take)
      obtain sp' sd' r where ins: "insert_spline sp sd (focal - foc x) x = (sp', sd', r)"
        by (cases "insert_spline sp sd (focal - foc x) x") auto
      show ?thesis
        using Cons.IH [OF f, of sp' sd'] take False ins dm' by (auto simp: Let_def)
    qed
  qed
qed

lemma spline_scan_no_record:
  "visited model none dm cs = [] \<Longrightarrow>
     spline_scan model none foc focal cs dm sp sd = Inr (dm, sp, sd)"
  using spline_scan_visited [of model none foc focal cs dm sp sd] by simp

lemma first_model_all_none:
  "(\<forall>c\<in>set cs. model c = none) \<Longrightarrow> considered model none cs = []"
  by (induction cs) (auto simp: considered_def visited_def)

lemma find_distinct_key:
  "distinct (map key xs) \<Longrightarrow> c \<in> set xs \<Longrightarrow> find (\<lambda>x. key x = key c) xs = Some c"
  by (induction xs) auto

lemma in_set_find_key:
  "c \<in> set xs \<Longrightarrow> \<exists>c'. find (\<lambda>x. key x = key c) xs = Some c' \<and> c' \<in> set xs \<and> key c' = key c"
  by (induction xs) auto


section \<open>A query at the focal length of a distortion sample\<close>

lemma GuessParameters_known:
  assumes "MinAperture l \<noteq> 0" "MinFocal l \<noteq> 0" "MaxFocal l \<noteq> 0"
  shows "GuessParameters regexec atof l = l"
  using assms by (simp add: GuessParameters_fill guess_bounds_known fill_bounds_sentinels)

lemma GuessParameters_CalibDistortion:
  "CalibDistortion (GuessParameters regexec atof l) = CalibDistortion l"
  by (simp add: GuessParameters_fill fill_bounds_fields)

lemma Check_CalibDistortion:
  "CalibDistortion (snd (Check regexec atof l)) = CalibDistortion l"
  by (simp add: Check_def Let_def GuessParameters_CalibDistortion)

lemma InterpolateDistortion_exact:
  assumes "find (\<lambda>x. Focal_d x = focal)
             (considered Model_d LF_DIST_MODEL_NONE (entries (CalibDistortion l))) = Some c"
  shows "InterpolateDistortion l focal res = (True, c)"
proof (cases "CalibDistortion l")
  case None
  with assms show ?thesis by (simp add: considered_def visited_def)
next
  case (Some cs)
  with assms have "find (\<lambda>x. Focal_d x = focal) (visited Model_d LF_DIST_MODEL_NONE LF_DIST_MODEL_NONE cs) = Some c"
    by (simp add: considered_def)
  then have "spline_scan Model_d LF_DIST_MODEL_NONE Focal_d focal cs LF_DIST_MODEL_NONE
               spline_init spline_dist_init = Inl c"
    by (rule spline_scan_exact)
  with Some show ?thesis by (simp add: InterpolateDistortion_def)
qed

lemma considered_distinct:
  "distinct (map key cs) \<Longrightarrow> distinct (map key (considered model none cs))"
  by (simp add: considered_def visited_def distinct_map_filter)

text \<open>
  Claim C2, amended. For every lens that passes \<open>Check\<close> and every record \<open>c\<close> of its
  distortion list that has the latched model (the model of the first record of the list
  whose model is not NONE), \<open>InterpolateDistortion\<close> at the focal length of \<open>c\<close>
  returns true, and \<open>res\<close> is, field by field, the first record of the latched model
  with that focal length; this is \<open>c\<close> itself when no two records of the list share a
  focal length.
\<close>

theorem InterpolateDistortion_exact_match:
  assumes chk: "Check regexec atof l = (True, l')"
    and c: "c \<in> set (considered Model_d LF_DIST_MODEL_NONE (entries (CalibDistortion l')))"
  shows "(\<exists>c'. find (\<lambda>x. Focal_d x = Focal_d c)
                 (considered Model_d LF_DIST_MODEL_NONE (entries (CalibDistortion l'))) = Some c'
              \<and> InterpolateDistortion l' (Focal_d c) res = (True, c'))
       \<and> (distinct (map Focal_d (entries (CalibDistortion l')))
            \<longrightarrow> InterpolateDistortion l' (Focal_d c) res = (True, c))"
proof
  from in_set_find_key [OF c, of Focal_d]
  obtain c' where f: "find (\<lambda>x. Focal_d x = Focal_d c)
      (considered Model_d LF_DIST_MODEL_NONE (entries (CalibDistortion l'))) = Some c'"
    by blast
  from InterpolateDistortion_exact [OF f] f
  show "\<exists>c'. find (\<lambda>x. Focal_d x = Focal_d c)
                 (considered Model_d LF_DIST_MODEL_NONE (entries (CalibDistortion l'))) = Some c'
              \<and> InterpolateDistortion l' (Focal_d c) res = (True, c')"
    by blast
next
  show "distinct (map Focal_d (entries (CalibDistortion l')))
            \<longrightarrow> InterpolateDistortion l' (Focal_d c) res = (True, c)"
  proof
    assume "distinct (map Focal_d (entries (CalibDistortion l')))"
    then have "distinct (map Focal_d (considered Model_d LF_DIST_MODEL_NONE (entries (CalibDistortion l'))))"
      by (rule considered_distinct)
    from find_distinct_key [OF this c]
    show "InterpolateDistortion l' (Focal_d c) res = (True, c)"
      by (rule InterpolateDistortion_exact)
  qed
qed

lemma Check_ex_lens_mixed: "Check ex_regexec ex_atof ex_lens_mixed = (True, ex_lens_mixed)"
proof -
  have "GuessParameters ex_regexec ex_atof ex_lens_mixed = ex_lens_mixed"
    by (rule GuessParameters_known) (simp_all add: ex_lens_mixed_def ex_lens_def new_lfLens_def)
  then show ?thesis
    by (simp add: Check_def) (simp add: ex_lens_mixed_def ex_lens_def new_lfLens_def)
qed

lemma considered_ex_lens_mixed:
  "considered Model_d LF_DIST_MODEL_NONE (entries (CalibDistortion ex_lens_mixed))
     = [ex_distortion LF_DIST_MODEL_POLY3 24 0.1 0, ex_distortion LF_DIST_MODEL_POLY3 70 0.3 0]"
  by (simp add: considered_def visited_def latched_def ex_lens_mixed_def ex_distortion_def)

theorem InterpolateDistortion_exact_match_witness:
  "Check ex_regexec ex_atof ex_lens_mixed = (True, ex_lens_mixed)
   \<and> ex_distortion LF_DIST_MODEL_POLY3 70 0.3 0
       \<in> set (considered Model_d LF_DIST_MODEL_NONE (entries (CalibDistortion ex_lens_mixed)))
   \<and> InterpolateDistortion ex_lens_mixed 70 (ex_distortion LF_DIST_MODEL_NONE 0 0 0)
       = (True, ex_distortion LF_DIST_MODEL_POLY3 70 0.3 0)"
proof -
  have c: "ex_distortion LF_DIST_MODEL_POLY3 70 0.3 0
       \<in> set (considered Model_d LF_DIST_MODEL_NONE (entries (CalibDistortion ex_lens_mixed)))"
    by (simp add: considered_ex_lens_mixed)
  have d: "distinct (map Focal_d (entries (CalibDistortion ex_lens_mixed)))"
    by (simp add: ex_lens_mixed_def ex_distortion_def)
  have f: "Focal_d (ex_distortion LF_DIST_MODEL_POLY3 70 0.3 0) = 70"
    by (simp add: ex_distortion_def)
  from InterpolateDistortion_exact_match [OF Check_ex_lens_mixed c, of "ex_distortion LF_DIST_MODEL_NONE 0 0 0"] d
  show ?thesis using Check_ex_lens_mixed c by (simp add: f)
qed

text \<open>
  Claim C2 says that for a lens that passes \<open>Check\<close> a query at the focal length of any
  record of the distortion list returns that record. The example lens passes \<open>Check\<close>;
  its list holds a PTLENS record at 50 mm between two POLY3 records at 24 mm and 70 mm.
  The query at 50 mm skips the PTLENS record, since POLY3 is latched, and returns a
  POLY3 record interpolated between the other two.
\<close>

theorem InterpolateDistortion_exact_match_counterexample:
  "fst (Check ex_regexec ex_atof ex_lens_mixed)
   \<and> ex_distortion LF_DIST_MODEL_PTLENS 50 0.2 0
       \<in> set (entries (CalibDistortion (snd (Check ex_regexec ex_atof ex_lens_mixed))))
   \<and> Focal_d (ex_distortion LF_DIST_MODEL_PTLENS 50 0.2 0) = 50
   \<and> Model_d (snd (InterpolateDistortion (snd (Check ex_regexec ex_atof ex_lens_mixed)) 50
            (ex_distortion LF_DIST_MODEL_NONE 0 0 0))) = LF_DIST_MODEL_POLY3
   \<and> snd (InterpolateDistortion (snd (Check ex_regexec ex_atof ex_lens_mixed)) 50
            (ex_distortion LF_DIST_MODEL_NONE 0 0 0))
       \<noteq> ex_distortion LF_DIST_MODEL_PTLENS 50 0.2 0"
proof -
  let ?r = "InterpolateDistortion ex_lens_mixed 50 (ex_distortion LF_DIST_MODEL_NONE 0 0 0)"
  have m: "Model_d (snd ?r) = LF_DIST_MODEL_POLY3"
    by (simp add: InterpolateDistortion_def ex_lens_mixed_def ex_distortion_def
        spline_init_def spline_dist_init_def insert_spline_def FLT_MAX_def Let_def)
  have "Model_d (ex_distortion LF_DIST_MODEL_PTLENS 50 0.2 0) = LF_DIST_MODEL_PTLENS"
    by (simp add: ex_distortion_def)
  with m have n: "snd ?r \<noteq> ex_distortion LF_DIST_MODEL_PTLENS 50 0.2 0"
    by auto
  have e: "ex_distortion LF_DIST_MODEL_PTLENS 50 0.2 0 \<in> set (entries (CalibDistortion ex_lens_mixed))"
    "Focal_d (ex_distortion LF_DIST_MODEL_PTLENS 50 0.2 0) = 50"
    by (simp_all add: ex_lens_mixed_def ex_distortion_def)
  show ?thesis
    using m n e by (simp add: Check_ex_lens_mixed)
qed


section \<open>The loop of the vignetting interpolator\<close>

lemma vignetting_scan_skip:
  "vm \<noteq> LF_VIGNETTING_MODEL_NONE \<Longrightarrow> vm \<noteq> Model_v c \<Longrightarrow>
     vignetting_scan l f a d (c # cs) vm res tw sm = vignetting_scan l f a d cs vm res tw sm"
  by simp








section \<open>When the vignetting interpolator succeeds\<close>

lemma sqrt_9: "sqrt 9 = 3"
  using real_sqrt_abs [of 3] by simp






text \<open>
  Claim C1 says that an interpolator which returns false leaves the caller's record as
  it was. \<open>InterpolateVignetting\<close> on a lens with one PA sample at (24 mm, f/4, 1 m)
  and the query (24 mm, f/1, 1 m): the sample is at the normalized distance 3, the call
  returns false, and the record it was given (model NONE, all fields 0) comes back
  with the model PA and the focal length, aperture and distance of the query.
\<close>

theorem InterpolateVignetting_miss_overwrites_res:
  "fst (InterpolateVignetting ex_lens_far 24 1 1 (ex_vignetting LF_VIGNETTING_MODEL_NONE 0 0 0 0)) = False
   \<and> Model_v (snd (InterpolateVignetting ex_lens_far 24 1 1 (ex_vignetting LF_VIGNETTING_MODEL_NONE 0 0 0 0)))
       = LF_VIGNETTING_MODEL_PA
   \<and> Focal_v (snd (InterpolateVignetting ex_lens_far 24 1 1 (ex_vignetting LF_VIGNETTING_MODEL_NONE 0 0 0 0)))
       = 24
   \<and> Aperture (snd (InterpolateVignetting ex_lens_far 24 1 1 (ex_vignetting LF_VIGNETTING_MODEL_NONE 0 0 0 0)))
       = 1
   \<and> Distance (snd (InterpolateVignetting ex_lens_far 24 1 1 (ex_vignetting LF_VIGNETTING_MODEL_NONE 0 0 0 0)))
       = 1
   \<and> snd (InterpolateVignetting ex_lens_far 24 1 1 (ex_vignetting LF_VIGNETTING_MODEL_NONE 0 0 0 0))
       \<noteq> ex_vignetting LF_VIGNETTING_MODEL_NONE 0 0 0 0"
proof -
  have d: "vignetting_dist ex_lens_far (ex_vignetting m 24 4 1 k) 24 1 1 = 3" for m k
    by (simp add: vignetting_dist_def ex_lens_far_def ex_lens_def new_lfLens_def
        ex_vignetting_def square_def Let_def sqrt_9)
  let ?r = "InterpolateVignetting ex_lens_far 24 1 1 (ex_vignetting LF_VIGNETTING_MODEL_NONE 0 0 0 0)"
  have c: "CalibVignetting ex_lens_far = Some [ex_vignetting LF_VIGNETTING_MODEL_PA 24 4 1 0.5]"
    by (simp add: ex_lens_far_def)
  have m: "Model_v (ex_vignetting m 24 4 1 k) = m" "Focal_v (ex_vignetting m 24 4 1 k) = 24" for m k
    by (simp_all add: ex_vignetting_def)
  have r: "fst ?r = False" "Model_v (snd ?r) = LF_VIGNETTING_MODEL_PA" "Focal_v (snd ?r) = 24"
    "Aperture (snd ?r) = 1" "Distance (snd ?r) = 1"
    by (simp_all add: InterpolateVignetting_def c d m Let_def FLT_MAX_def)
  have "Focal_v (ex_vignetting LF_VIGNETTING_MODEL_NONE 0 0 0 0) = 0" by (simp add: ex_vignetting_def)
  with r(3) have "snd ?r \<noteq> ex_vignetting LF_VIGNETTING_MODEL_NONE 0 0 0 0" by auto
  with r show ?thesis by simp
qed

lemma upt_3: "[0..<3] = [0, 1, 2]"
  by (simp add: upt_rec)

text \<open>
  Claim C5 says that a list whose records are all of model NONE makes the interpolator
  return false. \<open>InterpolateVignetting\<close> on a lens whose only sample has the model
  NONE returns true, with a record of model NONE: interpolated from the sample for a
  query at the distance 1, and the sample itself for a query at the distance 0.
\<close>

theorem InterpolateVignetting_all_NONE_succeeds:
  "map Model_v (entries (CalibVignetting ex_lens_none)) = [LF_VIGNETTING_MODEL_NONE]
   \<and> InterpolateVignetting ex_lens_none 24 2 1 (ex_vignetting LF_VIGNETTING_MODEL_PA 0 0 0 0)
       = (True, ex_vignetting LF_VIGNETTING_MODEL_NONE 24 2 1 0.5)
   \<and> InterpolateVignetting ex_lens_none 24 4 1 (ex_vignetting LF_VIGNETTING_MODEL_PA 0 0 0 0)
       = (True, ex_vignetting LF_VIGNETTING_MODEL_NONE 24 4 1 0.5)"
proof -
  have d: "vignetting_dist ex_lens_none (ex_vignetting m 24 4 1 k) 24 2 1 = 1"
    "vignetting_dist ex_lens_none (ex_vignetting m 24 4 1 k) 24 4 1 = 0" for m k
    by (simp_all add: vignetting_dist_def ex_lens_none_def ex_lens_def new_lfLens_def
        ex_vignetting_def square_def Let_def)
  have c: "CalibVignetting ex_lens_none = Some [ex_vignetting LF_VIGNETTING_MODEL_NONE 24 4 1 0.5]"
    by (simp add: ex_lens_none_def)
  have m: "Model_v (ex_vignetting m 24 4 1 k) = m"
    "Focal_v (ex_vignetting m 24 4 1 k) = 24"
    "Terms_v (ex_vignetting m 24 4 1 k) = [k, 0, 0]" for m k
    by (simp_all add: ex_vignetting_def)
  have 1: "InterpolateVignetting ex_lens_none 24 2 1 (ex_vignetting LF_VIGNETTING_MODEL_PA 0 0 0 0)
       = (True, ex_vignetting LF_VIGNETTING_MODEL_NONE 24 2 1 0.5)"
    by (simp add: InterpolateVignetting_def c d m Let_def FLT_MAX_def upt_3 parameter_scales_def
        LF_MODIFY_VIGNETTING_def LF_MODIFY_DISTORTION_def LF_MODIFY_TCA_def)
       (simp add: ex_vignetting_def)
  have 2: "InterpolateVignetting ex_lens_none 24 4 1 (ex_vignetting LF_VIGNETTING_MODEL_PA 0 0 0 0)
       = (True, ex_vignetting LF_VIGNETTING_MODEL_NONE 24 4 1 0.5)"
    by (simp add: InterpolateVignetting_def c d Let_def)
  show ?thesis using 1 2 by (simp add: c m)
qed


section \<open>The other interpolators on a miss\<close>

text \<open>
  The four spline interpolators return false only on paths that have not written to
  \<open>res\<close>, and \<open>InterpolateVignetting\<close> does so for the NULL list.
\<close>

lemma InterpolateDistortion_miss:
  "\<not> fst (InterpolateDistortion l focal res) \<Longrightarrow> snd (InterpolateDistortion l focal res) = res"
  by (auto simp: InterpolateDistortion_def Let_def split: option.splits sum.splits prod.splits)

lemma InterpolateTCA_miss:
  "\<not> fst (InterpolateTCA l focal res) \<Longrightarrow> snd (InterpolateTCA l focal res) = res"
  by (auto simp: InterpolateTCA_def Let_def split: option.splits sum.splits prod.splits)

lemma InterpolateCrop_miss:
  "\<not> fst (InterpolateCrop l focal res) \<Longrightarrow> snd (InterpolateCrop l focal res) = res"
  by (auto simp: InterpolateCrop_def Let_def split: option.splits sum.splits prod.splits)

lemma InterpolateFov_miss:
  "\<not> fst (InterpolateFov l focal res) \<Longrightarrow> snd (InterpolateFov l focal res) = res"
  by (auto simp: InterpolateFov_def Let_def split: option.splits sum.splits prod.splits if_splits)

lemma InterpolateVignetting_NULL:
  "CalibVignetting l = None \<Longrightarrow> InterpolateVignetting l focal aperture distance res = (False, res)"
  by (simp add: InterpolateVignetting_def)

text \<open>
  The records which the scan skips do not influence the result of the three
  interpolators with a model: the call on the list and the call on its considered
  records agree. A list of records of model NONE only makes them return false.
\<close>

lemma InterpolateDistortion_considered:
  assumes "CalibDistortion l = Some cs"
  shows "InterpolateDistortion l focal res =
     InterpolateDistortion (l\<lparr>CalibDistortion := Some (considered Model_d LF_DIST_MODEL_NONE cs)\<rparr>) focal res"
  using assms spline_scan_visited [of Model_d LF_DIST_MODEL_NONE Focal_d focal cs LF_DIST_MODEL_NONE
      spline_init spline_dist_init]
  by (simp add: InterpolateDistortion_def considered_def)

lemma InterpolateTCA_considered:
  assumes "CalibTCA l = Some cs"
  shows "InterpolateTCA l focal res =
     InterpolateTCA (l\<lparr>CalibTCA := Some (considered Model_t LF_TCA_MODEL_NONE cs)\<rparr>) focal res"
  using assms spline_scan_visited [of Model_t LF_TCA_MODEL_NONE Focal_t focal cs LF_TCA_MODEL_NONE
      spline_init spline_dist_init]
  by (simp add: InterpolateTCA_def considered_def)

lemma InterpolateCrop_considered:
  assumes "CalibCrop l = Some cs"
  shows "InterpolateCrop l focal res =
     InterpolateCrop (l\<lparr>CalibCrop := Some (considered CropMode LF_NO_CROP cs)\<rparr>) focal res"
  using assms spline_scan_visited [of CropMode LF_NO_CROP Focal_c focal cs LF_NO_CROP
      spline_init spline_dist_init]
  by (simp add: InterpolateCrop_def considered_def)

lemma InterpolateDistortion_all_NONE:
  assumes "\<forall>c\<in>set (entries (CalibDistortion l)). Model_d c = LF_DIST_MODEL_NONE"
  shows "InterpolateDistortion l focal res = (False, res)"
proof (cases "CalibDistortion l")
  case None
  then show ?thesis by (simp add: InterpolateDistortion_def)
next
  case (Some cs)
  with assms have "visited Model_d LF_DIST_MODEL_NONE LF_DIST_MODEL_NONE cs = []"
    using first_model_all_none [of cs Model_d LF_DIST_MODEL_NONE] by (simp add: considered_def)
  from spline_scan_no_record [OF this] Some show ?thesis
    by (simp add: InterpolateDistortion_def spline_init_def)
qed

lemma InterpolateTCA_all_NONE:
  assumes "\<forall>c\<in>set (entries (CalibTCA l)). Model_t c = LF_TCA_MODEL_NONE"
  shows "InterpolateTCA l focal res = (False, res)"
proof (cases "CalibTCA l")
  case None
  then show ?thesis by (simp add: InterpolateTCA_def)
next
  case (Some cs)
  with assms have "visited Model_t LF_TCA_MODEL_NONE LF_TCA_MODEL_NONE cs = []"
    using first_model_all_none [of cs Model_t LF_TCA_MODEL_NONE] by (simp add: considered_def)
  from spline_scan_no_record [OF this] Some show ?thesis
    by (simp add: InterpolateTCA_def spline_init_def)
qed

lemma InterpolateCrop_all_NONE:
  assumes "\<forall>c\<in>set (entries (CalibCrop l)). CropMode c = LF_NO_CROP"
  shows "InterpolateCrop l focal res = (False, res)"
proof (cases "CalibCrop l")
  case None
  then show ?thesis by (simp add: InterpolateCrop_def)
next
  case (Some cs)
  with assms have "visited CropMode LF_NO_CROP LF_NO_CROP cs = []"
    using first_model_all_none [of cs CropMode LF_NO_CROP] by (simp add: considered_def)
  from spline_scan_no_record [OF this] Some show ?thesis
    by (simp add: InterpolateCrop_def spline_init_def)
qed


end
